theory Spec2Isabelle
  imports Main
begin

section \<open>JavaScript strings and values\<close>

text \<open>
  The program is the command line tool \<^verbatim>\<open>src/cli.ts\<close>. Its strings are modelled as
  \<^typ>\<open>string\<close>: one \<^typ>\<open>char\<close> stands for one UTF-16 code unit below 256, which covers
  every character the program itself tests for (digits, word characters, white space,
  the five reserved XML characters, the comma and the line feed). An optional value
  (\<^verbatim>\<open>string | undefined\<close>, \<^verbatim>\<open>string | null\<close>) is a \<^typ>\<open>string option\<close>.
\<close>

text \<open>
  White space as \<^verbatim>\<open>String.prototype.trim\<close> and the regular expression class
  \<^verbatim>\<open>\s\<close> see it, restricted to code units below 256: TAB, LF, VT, FF, CR, SPACE, NBSP.
\<close>

definition isWhiteSpace :: "char \<Rightarrow> bool" where
  "isWhiteSpace c \<longleftrightarrow>
     c \<in> set [CHR 0x09, CHR 0x0A, CHR 0x0B, CHR 0x0C, CHR 0x0D, CHR 0x20, CHR 0xA0]"

text \<open>\<^verbatim>\<open>s.trim()\<close>: white space removed at both ends.\<close>

definition trim :: "string \<Rightarrow> string" where
  "trim s = rev (dropWhile isWhiteSpace (rev (dropWhile isWhiteSpace s)))"

text \<open>The class \<^verbatim>\<open>\d\<close> of a regular expression without the unicode flag.\<close>

definition isDigit :: "char \<Rightarrow> bool" where
  "isDigit c \<longleftrightarrow> c \<in> set ''0123456789''"

text \<open>
  Truthiness of an optional string: \<^verbatim>\<open>undefined\<close>, \<^verbatim>\<open>null\<close> and the empty string
  are falsy, every other string is truthy.
\<close>

fun truthy :: "string option \<Rightarrow> bool" where
  "truthy None = False"
| "truthy (Some s) = (s \<noteq> [])"

text \<open>\<^verbatim>\<open>a || b\<close> on optional strings.\<close>

definition orElse :: "string option \<Rightarrow> string option \<Rightarrow> string option" where
  "orElse a b = (if truthy a then a else b)"

text \<open>
  A string has outer white space when it is not empty and starts or ends with a white
  space character.
\<close>

definition hasOuterWhiteSpace :: "string \<Rightarrow> bool" where
  "hasOuterWhiteSpace s \<longleftrightarrow> s \<noteq> [] \<and> (isWhiteSpace (hd s) \<or> isWhiteSpace (last s))"

section \<open>Errors\<close>

text \<open>Every \<^verbatim>\<open>throw new Error(...)\<close> and the \<^verbatim>\<open>process.exit(1)\<close> of the program.\<close>

datatype error =
    UnknownArgument string
  | MissingRequiredArguments
  | OutputMustBeNonEmpty
  | CsvInconsistentColumns
  | RosterCsvEmpty
  | MissingCandidateNumber nat
  | CandidateNumberNoDigit
  | MissingCandidateName nat
  | MissingResultId nat
  | DuplicateResultId string
  | NoAssessmentItemRefs
  | ItemIdentifierEmpty
  | DuplicateItemIdentifier string
  | BadDatestamp
  | OutputFileExists string
  | MissingRosterRow string
  | NoSuchFile string

section \<open>The roster reader\<close>

record RosterRow =
  candidateNumber :: string
  candidateName :: string
  candidateAccount :: "string option"
  candidateId :: "string option"
  resultId :: string

text \<open>
  One record of \<^verbatim>\<open>parseCsv(..., {columns: true})\<close>: an object from column names to
  cell values, \<^verbatim>\<open>record["c"]\<close> being \<^verbatim>\<open>undefined\<close> for a column the header lacks.
\<close>

type_synonym CsvRecord = "string \<rightharpoonup> string"

text \<open>
  The body of \<^verbatim>\<open>records.forEach((record, index) => ...)\<close> in \<^verbatim>\<open>readRosterCsv\<close>, with the
  two variables it updates, \<^verbatim>\<open>rows\<close> and \<^verbatim>\<open>seen\<close>. \<^verbatim>\<open>record["c"]?.trim()\<close> is
  \<^term>\<open>map_option trim (record c)\<close>. Each \<^term>\<open>the\<close> reads a value that the check before it
  has found truthy.
\<close>

fun rosterLoop ::
  "CsvRecord list \<Rightarrow> nat \<Rightarrow> RosterRow list \<Rightarrow> string set \<Rightarrow> error + RosterRow list" where
  "rosterLoop [] index rows seen = Inr rows"
| "rosterLoop (record # records) index rows seen =
     (let candidateNumber = map_option trim (record ''candidate_number'');
          candidateName = map_option trim (record ''candidate_name'');
          candidateAccount = map_option trim (record ''candidate_account'');
          candidateId = map_option trim (record ''candidate_id'');
          resultIdRaw = map_option trim (record ''result_id'')
      in if \<not> truthy candidateNumber then Inl (MissingCandidateNumber (index + 2))
         else if \<not> list_ex isDigit (the candidateNumber) then Inl CandidateNumberNoDigit
         else if \<not> truthy candidateName then Inl (MissingCandidateName (index + 2))
         else
           let resultId = orElse resultIdRaw candidateNumber
           in if \<not> truthy resultId then Inl (MissingResultId (index + 2))
              else if the resultId \<in> seen then Inl (DuplicateResultId (the resultId))
              else rosterLoop records (index + 1)
                     (rows @ [\<lparr>candidateNumber = the candidateNumber,
                               candidateName = the candidateName,
                               candidateAccount = orElse candidateAccount None,
                               candidateId = orElse candidateId None,
                               resultId = the resultId\<rparr>])
                     (insert (the resultId) seen))"

text \<open>\<^verbatim>\<open>readRosterCsv\<close> from the parsed records on.\<close>

definition readRosterRecords :: "CsvRecord list \<Rightarrow> error + RosterRow list" where
  "readRosterRecords records =
     (if records = [] then Inl RosterCsvEmpty else rosterLoop records 0 [] {})"

text \<open>
  The result identifier of a record in the words of the specification: the trimmed
  \<^verbatim>\<open>result_id\<close> cell if it is not empty, else the (trimmed) \<^verbatim>\<open>candidate_number\<close> cell. A
  missing cell reads as the empty string.
\<close>

definition cell :: "CsvRecord \<Rightarrow> string \<Rightarrow> string" where
  "cell record c = (case record c of None \<Rightarrow> [] | Some v \<Rightarrow> trim v)"


text \<open>A row none of whose five fields has outer white space.\<close>

definition rowTrimmed :: "RosterRow \<Rightarrow> bool" where
  "rowTrimmed r \<longleftrightarrow>
     \<not> hasOuterWhiteSpace (candidateNumber r) \<and>
     \<not> hasOuterWhiteSpace (candidateName r) \<and>
     (\<forall>a. candidateAccount r = Some a \<longrightarrow> \<not> hasOuterWhiteSpace a) \<and>
     (\<forall>i. candidateId r = Some i \<longrightarrow> \<not> hasOuterWhiteSpace i) \<and>
     \<not> hasOuterWhiteSpace (RosterRow.resultId r)"

section \<open>The host\<close>

text \<open>
  What the program takes from Node.js and from the library \<^verbatim>\<open>csv-parse\<close> and cannot compute
  itself: the functions of the \<^verbatim>\<open>path\<close> module, the call
  \<^verbatim>\<open>parseCsv(csvText, {columns: true, bom: true, skip_empty_lines: true, trim: true})\<close>,
  whether \<^verbatim>\<open>Date.parse\<close> yields \<^verbatim>\<open>NaN\<close> on a string, the clock
  (\<^verbatim>\<open>new Date().toISOString()\<close>) and the version in \<^verbatim>\<open>package.json\<close>. They are
  parameters of the model: what is proved of a host in general holds whatever these
  functions return.
\<close>

record Host =
  pathJoin :: "string \<Rightarrow> string \<Rightarrow> string"
  pathResolve :: "string \<Rightarrow> string"
  pathDirname :: "string \<Rightarrow> string"
  parseCsv :: "string \<Rightarrow> error + CsvRecord list"
  dateParseIsNaN :: "string \<Rightarrow> bool"
  nowISOString :: string
  packageVersion :: string

text \<open>
  The file system and the standard input. \<^verbatim>\<open>fs.existsSync\<close> is true of a file and of a
  directory. \<^verbatim>\<open>fs.mkdirSync\<close> and \<^verbatim>\<open>fs.writeFileSync\<close> are modelled where they succeed;
  the failures of the operating system (permissions, a full disk) are not part of the model.
\<close>

record World =
  files :: "string \<rightharpoonup> string"
  dirs :: "string set"
  stdin :: string

definition readFileSync :: "World \<Rightarrow> string \<Rightarrow> error + string" where
  "readFileSync w p = (case files w p of None \<Rightarrow> Inl (NoSuchFile p) | Some text \<Rightarrow> Inr text)"

definition existsSync :: "World \<Rightarrow> string \<Rightarrow> bool" where
  "existsSync w p \<longleftrightarrow> files w p \<noteq> None \<or> p \<in> dirs w"

definition mkdirSync :: "World \<Rightarrow> string \<Rightarrow> World" where
  "mkdirSync w p = w\<lparr>dirs := insert p (dirs w)\<rparr>"

definition writeFileSync :: "World \<Rightarrow> string \<Rightarrow> string \<Rightarrow> World" where
  "writeFileSync w p text = w\<lparr>files := (files w)(p \<mapsto> text)\<rparr>"

section \<open>Reading the roster file\<close>

text \<open>
  \<^verbatim>\<open>readRosterCsv\<close>: the text of the file or of the standard input, the parser of the host
  and the loop over its records.
\<close>

definition readRosterCsv :: "Host \<Rightarrow> World \<Rightarrow> string \<Rightarrow> error + RosterRow list" where
  "readRosterCsv host w rosterPath =
     (case (if rosterPath = ''-'' then Inr (stdin w) else readFileSync w rosterPath) of
        Inl e \<Rightarrow> Inl e
      | Inr csvText \<Rightarrow>
          (case parseCsv host csvText of
             Inl e \<Rightarrow> Inl e
           | Inr records \<Rightarrow> readRosterRecords records))"

text \<open>
  A parser for concrete runs. It is what \<^verbatim>\<open>csv-parse\<close> returns, with the four options
  above, for the texts of \<open>plainCsvText\<close>: texts with no double quote (so no field is
  quoted) and no carriage return (so every line ends with LF). On such a text
  \<^item> a field ends at a comma, a record at a line feed;
  \<^item> \<^verbatim>\<open>trim\<close> drops the characters SPACE, TAB, CR, LF and FF before a field and (with
    \<^verbatim>\<open>trimRight\<close>) all white space after it;
  \<^item> \<^verbatim>\<open>skip_empty_lines\<close> yields no record for a line that is empty or, with \<^verbatim>\<open>trim\<close>, made
    of the characters dropped before a field;
  \<^item> \<^verbatim>\<open>columns\<close> takes the first record as the column names, makes every later record an
    object keyed by them (the last of two equal names wins) and raises
    \<^verbatim>\<open>CSV_RECORD_INCONSISTENT_COLUMNS\<close> for a record with another number of fields;
  \<^item> \<^verbatim>\<open>bom\<close> has nothing to remove: U+FEFF lies outside the characters of this model.
  The rosters of the concrete runs in this theory are texts of \<open>plainCsvText\<close>.
\<close>

definition plainCsvText :: "string \<Rightarrow> bool" where
  "plainCsvText csvText \<longleftrightarrow> list_all (\<lambda>c. c \<noteq> CHR 0x22 \<and> c \<noteq> CHR 0x0D) csvText"

definition isCsvTrimChar :: "char \<Rightarrow> bool" where
  "isCsvTrimChar c \<longleftrightarrow> c \<in> set [CHR 0x20, CHR 0x09, CHR 0x0D, CHR 0x0A, CHR 0x0C]"

definition csvTrim :: "string \<Rightarrow> string" where
  "csvTrim s = rev (dropWhile isWhiteSpace (rev (dropWhile isCsvTrimChar s)))"

fun splitOn :: "char \<Rightarrow> string \<Rightarrow> string list" where
  "splitOn d [] = [[]]"
| "splitOn d (c # cs) =
     (if c = d then [] # splitOn d cs
      else (case splitOn d cs of [] \<Rightarrow> [[c]] | f # fs \<Rightarrow> (c # f) # fs))"

definition plainParseCsv :: "string \<Rightarrow> error + CsvRecord list" where
  "plainParseCsv csvText =
     (case filter (\<lambda>line. \<not> list_all isCsvTrimChar line) (splitOn CHR ''\<newline>'' csvText) of
        [] \<Rightarrow> Inr []
      | header # lines \<Rightarrow>
          (let columns = map csvTrim (splitOn CHR '','' header);
               fields = map (\<lambda>line. map csvTrim (splitOn CHR '','' line)) lines
           in if list_ex (\<lambda>fs. length fs \<noteq> length columns) fields
              then Inl CsvInconsistentColumns
              else Inr (map (\<lambda>fs. map_of (rev (zip columns fs))) fields)))"

section \<open>The assessment item extractor\<close>

text \<open>
  The regular expression of \<^verbatim>\<open>readAssessmentTestItemIds\<close> is
  \<^verbatim>\<open>/<qti-assessment-item-ref\b[^>]*\bidentifier\s*=\s*(["'])([^"']+)\1[^>]*\/?\s*>/g\<close>.
  The functions below match it piece by piece, each on the text that is left, in the
  order in which the backtracking matcher of JavaScript tries the alternatives.
\<close>

definition isWordChar :: "char \<Rightarrow> bool" where
  "isWordChar c \<longleftrightarrow>
     c \<in> set ''ABCDEFGHIJKLMNOPQRSTUVWXYZabcdefghijklmnopqrstuvwxyz0123456789_''"

definition isQuote :: "char \<Rightarrow> bool" where
  "isQuote c \<longleftrightarrow> c = CHR 0x22 \<or> c = CHR 0x27"

text \<open>
  \<^verbatim>\<open>\b\<close> between the character \<open>prev\<close> and the text \<open>s\<close> that follows it: exactly one of
  the two neighbours is a word character (the end of the input is none).
\<close>

definition wordBoundary :: "char \<Rightarrow> string \<Rightarrow> bool" where
  "wordBoundary prev s \<longleftrightarrow>
     isWordChar prev \<noteq> (case s of [] \<Rightarrow> False | c # _ \<Rightarrow> isWordChar c)"

text \<open>A literal piece of the pattern: the text after it, if the text starts with it.\<close>

fun stripPrefix :: "string \<Rightarrow> string \<Rightarrow> string option" where
  "stripPrefix [] s = Some s"
| "stripPrefix (p # ps) [] = None"
| "stripPrefix (p # ps) (c # cs) = (if p = c then stripPrefix ps cs else None)"

text \<open>
  \<^verbatim>\<open>[^>]*\/?\s*>\<close>: the greedy class runs up to the first \<^verbatim>\<open>>\<close>, where the match
  ends; without a \<^verbatim>\<open>>\<close> in the rest of the text no shorter run helps.
\<close>

definition matchTail :: "string \<Rightarrow> string option" where
  "matchTail s =
     (case dropWhile (\<lambda>c. c \<noteq> CHR ''>'') s of [] \<Rightarrow> None | _ # rest \<Rightarrow> Some rest)"

text \<open>
  \<^verbatim>\<open>identifier\s*=\s*(["'])([^"']+)\1\<close> and the tail. Group 2 is the longest run of
  characters that are no quotes; it must not be empty, and the same quote as group 1
  must follow it (a shorter run is followed by a character that is no quote). The result
  is group 2 and the text after the match.
\<close>

definition matchIdentifier :: "string \<Rightarrow> (string \<times> string) option" where
  "matchIdentifier s =
     (case stripPrefix ''identifier'' s of
        None \<Rightarrow> None
      | Some s1 \<Rightarrow>
          (case dropWhile isWhiteSpace s1 of
             [] \<Rightarrow> None
           | c # s2 \<Rightarrow>
               if c \<noteq> CHR ''='' then None
               else
                 (case dropWhile isWhiteSpace s2 of
                    [] \<Rightarrow> None
                  | q # s3 \<Rightarrow>
                      if \<not> isQuote q then None
                      else
                        (let v = takeWhile (\<lambda>c. \<not> isQuote c) s3
                         in if v = [] then None
                            else
                              (case dropWhile (\<lambda>c. \<not> isQuote c) s3 of
                                 [] \<Rightarrow> None
                               | q' # s4 \<Rightarrow>
                                   if q' \<noteq> q then None
                                   else map_option (Pair v) (matchTail s4))))))"

text \<open>
  \<^verbatim>\<open>[^>]*\bidentifier...\<close>: the greedy class is tried from its longest run down to the empty
  one, so a later position of \<^verbatim>\<open>identifier\<close> inside the tag wins over an earlier one.
  \<open>prev\<close> is the character before the text \<open>s\<close>.
\<close>

fun matchGap :: "char \<Rightarrow> string \<Rightarrow> (string \<times> string) option" where
  "matchGap prev [] = (if wordBoundary prev [] then matchIdentifier [] else None)"
| "matchGap prev (c # cs) =
     (case (if c \<noteq> CHR ''>'' then matchGap c cs else None) of
        Some m \<Rightarrow> Some m
      | None \<Rightarrow> if wordBoundary prev (c # cs) then matchIdentifier (c # cs) else None)"

text \<open>The whole pattern at the start of the text.\<close>

definition matchItemRef :: "string \<Rightarrow> (string \<times> string) option" where
  "matchItemRef s =
     (case stripPrefix ''<qti-assessment-item-ref'' s of
        None \<Rightarrow> None
      | Some s1 \<Rightarrow> if wordBoundary CHR ''f'' s1 then matchGap CHR ''f'' s1 else None)"

lemma stripPrefix_length: "stripPrefix p s = Some r \<Longrightarrow> length r \<le> length s"
  by (induction p s rule: stripPrefix.induct) (auto split: if_splits)

lemma matchTail_length: "matchTail s = Some r \<Longrightarrow> length r < length s"
proof -
  assume m: "matchTail s = Some r"
  then obtain c where "dropWhile (\<lambda>c. c \<noteq> CHR ''>'') s = c # r"
    by (auto simp: matchTail_def split: list.splits)
  moreover have "length (dropWhile (\<lambda>c. c \<noteq> CHR ''>'') s) \<le> length s"
    by (rule length_dropWhile_le)
  ultimately show ?thesis by simp
qed

lemma matchIdentifier_length:
  assumes "matchIdentifier s = Some (v, r)"
  shows "length r < length s"
proof -
  from assms obtain s1 c s2 q s3 q' s4 where
    s1: "stripPrefix ''identifier'' s = Some s1" and
    s2: "dropWhile isWhiteSpace s1 = c # s2" and
    s3: "dropWhile isWhiteSpace s2 = q # s3" and
    s4: "dropWhile (\<lambda>c. \<not> isQuote c) s3 = q' # s4" and
    r: "matchTail s4 = Some r"
    by (auto simp: matchIdentifier_def Let_def split: option.splits list.splits if_splits)
  have "length s1 \<le> length s" using s1 by (rule stripPrefix_length)
  moreover have "length (c # s2) \<le> length s1"
    unfolding s2 [symmetric] by (rule length_dropWhile_le)
  moreover have "length (q # s3) \<le> length s2"
    unfolding s3 [symmetric] by (rule length_dropWhile_le)
  moreover have "length (q' # s4) \<le> length s3"
    unfolding s4 [symmetric] by (rule length_dropWhile_le)
  moreover have "length r < length s4" using r by (rule matchTail_length)
  ultimately show ?thesis by simp
qed

lemma matchGap_length: "matchGap prev s = Some (v, r) \<Longrightarrow> length r < length s"
proof (induction s arbitrary: prev)
  case Nil
  then show ?case by (auto split: if_splits dest: matchIdentifier_length)
next
  case (Cons c cs)
  show ?case
  proof (cases "c \<noteq> CHR ''>'' \<and> matchGap c cs \<noteq> None")
    case True
    with Cons.prems have "matchGap c cs = Some (v, r)" by auto
    then have "length r < length cs" by (rule Cons.IH)
    then show ?thesis by simp
  next
    case False
    with Cons.prems have "matchIdentifier (c # cs) = Some (v, r)"
      by (auto split: if_splits option.splits)
    then show ?thesis by (rule matchIdentifier_length)
  qed
qed

lemma matchItemRef_length: "matchItemRef s = Some (v, r) \<Longrightarrow> length r < length s"
proof -
  assume "matchItemRef s = Some (v, r)"
  then obtain s1 where "stripPrefix ''<qti-assessment-item-ref'' s = Some s1"
    and "matchGap CHR ''f'' s1 = Some (v, r)"
    by (auto simp: matchItemRef_def split: option.splits if_splits)
  then show ?thesis
    using stripPrefix_length matchGap_length by fastforce
qed

text \<open>
  The loop \<^verbatim>\<open>let match = pattern.exec(xml); while (match) { itemIds.push(match[2]); match =
  pattern.exec(xml); }\<close> of a pattern with the flag \<^verbatim>\<open>g\<close>: the leftmost match from the last
  index on, then the same from the end of that match. The argument is the text from the
  last index on; the result is \<^verbatim>\<open>itemIds\<close>.
\<close>

function execAll :: "string \<Rightarrow> string list" where
  "execAll s =
     (case matchItemRef s of
        Some (itemId, rest) \<Rightarrow> itemId # execAll rest
      | None \<Rightarrow> (case s of [] \<Rightarrow> [] | _ # cs \<Rightarrow> execAll cs))"
  by pat_completeness auto
termination
  by (relation "measure length") (auto dest: matchItemRef_length)

declare execAll.simps [simp del]

text \<open>The loop \<^verbatim>\<open>for (const itemId of itemIds)\<close> with its set \<^verbatim>\<open>seen\<close>.\<close>

fun checkItemIds :: "string list \<Rightarrow> string set \<Rightarrow> error + unit" where
  "checkItemIds [] seen = Inr ()"
| "checkItemIds (itemId # itemIds) seen =
     (if itemId = [] then Inl ItemIdentifierEmpty
      else if itemId \<in> seen then Inl (DuplicateItemIdentifier itemId)
      else checkItemIds itemIds (insert itemId seen))"

text \<open>\<^verbatim>\<open>readAssessmentTestItemIds\<close> from the text of the file on.\<close>

definition extractItemIds :: "string \<Rightarrow> error + string list" where
  "extractItemIds xml =
     (let itemIds = execAll xml
      in if length itemIds = 0 then Inl NoAssessmentItemRefs
         else (case checkItemIds itemIds {} of Inl e \<Rightarrow> Inl e | Inr _ \<Rightarrow> Inr itemIds))"

definition readAssessmentTestItemIds :: "World \<Rightarrow> string \<Rightarrow> error + string list" where
  "readAssessmentTestItemIds w assessmentTestPath =
     (case readFileSync w assessmentTestPath of
        Inl e \<Rightarrow> Inl e
      | Inr xml \<Rightarrow> extractItemIds xml)"

section \<open>The datestamp\<close>

definition resolveEndAt :: "Host \<Rightarrow> string \<Rightarrow> error + string" where
  "resolveEndAt host raw =
     (if raw = ''now'' then Inr (nowISOString host)
      else if dateParseIsNaN host raw then Inl BadDatestamp
      else Inr raw)"

section \<open>The document renderer\<close>

text \<open>\<^verbatim>\<open>value.replace(/c/g, r)\<close> for a single character \<open>c\<close>.\<close>

definition replaceAll :: "char \<Rightarrow> string \<Rightarrow> string \<Rightarrow> string" where
  "replaceAll c r s = concat (map (\<lambda>x. if x = c then r else [x]) s)"

definition escapeXml :: "string \<Rightarrow> string" where
  "escapeXml v =
     replaceAll (CHR 0x27) ''&apos;''
       (replaceAll (CHR 0x22) ''&quot;''
         (replaceAll CHR ''>'' ''&gt;''
           (replaceAll CHR ''<'' ''&lt;''
             (replaceAll CHR ''&'' ''&amp;'' v))))"

text \<open>A number in a template literal: its decimal digits.\<close>

fun showNat :: "nat \<Rightarrow> string" where
  "showNat n =
     (if n < 10 then [''0123456789'' ! n]
      else showNat (n div 10) @ [''0123456789'' ! (n mod 10)])"

declare showNat.simps [simp del]

definition RESULTS_NAMESPACE :: string where
  "RESULTS_NAMESPACE = ''http://www.imsglobal.org/xsd/imsqti_result_v3p0''"

definition XSI_NAMESPACE :: string where
  "XSI_NAMESPACE = ''http://www.w3.org/2001/XMLSchema-instance''"

definition SCHEMA_LOCATION :: string where
  "SCHEMA_LOCATION = RESULTS_NAMESPACE @ '' '' @ RESULTS_NAMESPACE @ ''.xsd''"

text \<open>
  The array \<^verbatim>\<open>lines\<close> of \<^verbatim>\<open>buildAssessmentResultXml\<close> when the function returns. The
  conditions \<^verbatim>\<open>if (row.candidateId)\<close>, \<^verbatim>\<open>if (row.candidateAccount)\<close> and
  \<^verbatim>\<open>if (testResultDatestamp)\<close> are truthiness tests; \<^verbatim>\<open>itemIds.forEach((itemId, index) => ...)\<close>
  visits the pairs of \<^term>\<open>enumerate 0 itemIds\<close>.
\<close>

definition assessmentResultLines ::
  "RosterRow \<Rightarrow> string \<Rightarrow> string option \<Rightarrow> string list \<Rightarrow> string list" where
  \<open>assessmentResultLines row testResultIdentifier testResultDatestamp itemIds =
     [''<?xml version="1.0" encoding="UTF-8"?>'',
      ''<assessmentResult xmlns="'' @ RESULTS_NAMESPACE @ ''" xmlns:xsi="'' @ XSI_NAMESPACE
        @ ''" xsi:schemaLocation="'' @ SCHEMA_LOCATION @ ''">'',
      ''  <context sourcedId="'' @ escapeXml (candidateNumber row) @ ''">'',
      ''    <sessionIdentifier sourceID="candidateName" identifier="''
        @ escapeXml (candidateName row) @ ''" />'']
     @ (if truthy (candidateId row)
        then [''    <sessionIdentifier sourceID="candidateId" identifier="''
                @ escapeXml (the (candidateId row)) @ ''" />'']
        else [])
     @ (if truthy (candidateAccount row)
        then [''    <sessionIdentifier sourceID="candidateAccount" identifier="''
                @ escapeXml (the (candidateAccount row)) @ ''" />'']
        else [])
     @ [''  </context>'']
     @ [if truthy testResultDatestamp
        then ''  <testResult identifier="'' @ escapeXml testResultIdentifier
               @ ''" datestamp="'' @ escapeXml (the testResultDatestamp) @ ''" />''
        else ''  <testResult identifier="'' @ escapeXml testResultIdentifier @ ''" />'']
     @ map (\<lambda>(index, itemId).
              if truthy testResultDatestamp
              then ''  <itemResult identifier="'' @ escapeXml itemId
                     @ ''" sequenceIndex="'' @ showNat (index + 1)
                     @ ''" datestamp="'' @ escapeXml (the testResultDatestamp)
                     @ ''" sessionStatus="final" />''
              else ''  <itemResult identifier="'' @ escapeXml itemId
                     @ ''" sequenceIndex="'' @ showNat (index + 1)
                     @ ''" sessionStatus="final" />'')
         (enumerate 0 itemIds)
     @ [''</assessmentResult>'']\<close>

text \<open>\<^verbatim>\<open>lines.join("\n")\<close>.\<close>

fun joinLines :: "string list \<Rightarrow> string" where
  "joinLines [] = []"
| "joinLines [l] = l"
| "joinLines (l # ls) = l @ ''\<newline>'' @ joinLines ls"

definition buildAssessmentResultXml ::
  "RosterRow \<Rightarrow> string \<Rightarrow> string option \<Rightarrow> string list \<Rightarrow> string" where
  "buildAssessmentResultXml row testResultIdentifier testResultDatestamp itemIds =
     joinLines (assessmentResultLines row testResultIdentifier testResultDatestamp itemIds)
       @ ''\<newline>''"

section \<open>Reading a rendered document\<close>

text \<open>
  What a reader of XML finds in the text of a document, stated for the properties of the
  renderer. A tag runs from a \<^verbatim>\<open><\<close> to the next \<^verbatim>\<open>>\<close> that stands outside a quoted
  attribute value; \<open>xmlTags\<close> lists the tags of a text in their order, each without its
  two brackets. The scan is a left fold over the characters: \<open>Outside\<close> any tag, \<open>InTag\<close>
  with the characters of the tag read so far (last first), \<open>InQuote\<close> inside an attribute
  value opened by the given quote.
\<close>

datatype scanState = Outside | InTag string | InQuote char string

fun tagStep :: "string list \<times> scanState \<Rightarrow> char \<Rightarrow> string list \<times> scanState" where
  "tagStep (out, Outside) c = (if c = CHR ''<'' then (out, InTag []) else (out, Outside))"
| "tagStep (out, InTag acc) c =
     (if c = CHR ''>'' then (rev acc # out, Outside)
      else if isQuote c then (out, InQuote c (c # acc))
      else (out, InTag (c # acc)))"
| "tagStep (out, InQuote q acc) c =
     (if c = q then (out, InTag (c # acc)) else (out, InQuote q (c # acc)))"

definition xmlTags :: "string \<Rightarrow> string list" where
  "xmlTags text = rev (fst (foldl tagStep ([], Outside) text))"

text \<open>The name of a tag: its characters up to the first space.\<close>

definition tagName :: "string \<Rightarrow> string" where
  "tagName tag = takeWhile (\<lambda>c. c \<noteq> CHR '' '') tag"

text \<open>
  The attributes of a tag, as pairs of a name and a value between its quotes, in their
  order: after the name of the tag, \<open>Between\<close> attributes, in the name of an attribute,
  after its \<^verbatim>\<open>=\<close>, or in its value (name, opening quote, characters read so far).
\<close>

datatype attrState =
    InTagName
  | Between
  | InAttrName string
  | AfterEq string
  | InAttrValue string char string

fun attrStep ::
  "(string \<times> string) list \<times> attrState \<Rightarrow> char \<Rightarrow> (string \<times> string) list \<times> attrState" where
  "attrStep (out, InTagName) c = (if c = CHR '' '' then (out, Between) else (out, InTagName))"
| "attrStep (out, Between) c = (if c = CHR '' '' then (out, Between) else (out, InAttrName [c]))"
| "attrStep (out, InAttrName n) c =
     (if c = CHR ''='' then (out, AfterEq (rev n))
      else if c = CHR '' '' then (out, Between)
      else (out, InAttrName (c # n)))"
| "attrStep (out, AfterEq n) c =
     (if isQuote c then (out, InAttrValue n c []) else (out, Between))"
| "attrStep (out, InAttrValue n q v) c =
     (if c = q then ((n, rev v) # out, Between) else (out, InAttrValue n q (c # v)))"

definition xmlAttrs :: "string \<Rightarrow> (string \<times> string) list" where
  "xmlAttrs tag = rev (fst (foldl attrStep ([], InTagName) tag))"

text \<open>The value of the attribute \<open>name\<close> of a tag, as it is written between the quotes.\<close>

definition attribute :: "string \<Rightarrow> string \<Rightarrow> string option" where
  "attribute name tag = map_of (xmlAttrs tag) name"

text \<open>
  The text that an attribute value stands for: each of the five predefined entities of
  XML read as its character.
\<close>

function unescapeXml :: "string \<Rightarrow> string" where
  "unescapeXml [] = []"
| "unescapeXml (c # cs) =
     (if c \<noteq> CHR ''&'' then c # unescapeXml cs
      else
        (case stripPrefix ''amp;'' cs of
           Some r \<Rightarrow> CHR ''&'' # unescapeXml r
         | None \<Rightarrow>
             (case stripPrefix ''lt;'' cs of
                Some r \<Rightarrow> CHR ''<'' # unescapeXml r
              | None \<Rightarrow>
                  (case stripPrefix ''gt;'' cs of
                     Some r \<Rightarrow> CHR ''>'' # unescapeXml r
                   | None \<Rightarrow>
                       (case stripPrefix ''quot;'' cs of
                          Some r \<Rightarrow> CHR 0x22 # unescapeXml r
                        | None \<Rightarrow>
                            (case stripPrefix ''apos;'' cs of
                               Some r \<Rightarrow> CHR 0x27 # unescapeXml r
                             | None \<Rightarrow> c # unescapeXml cs))))))"
  by pat_completeness auto
termination
  by (relation "measure length") (auto dest: stripPrefix_length intro: le_imp_less_Suc)

declare unescapeXml.simps(2) [simp del]

text \<open>
  The \<^verbatim>\<open>itemResult\<close> elements of a document, and its \<^verbatim>\<open>testResult\<close> and \<^verbatim>\<open>itemResult\<close>
  elements, as tags in the order of the text.
\<close>

definition itemResults :: "string \<Rightarrow> string list" where
  "itemResults doc = filter (\<lambda>tag. tagName tag = ''itemResult'') (xmlTags doc)"

definition resultElements :: "string \<Rightarrow> string list" where
  "resultElements doc =
     filter (\<lambda>tag. tagName tag = ''testResult'' \<or> tagName tag = ''itemResult'') (xmlTags doc)"

text \<open>
  For the proofs about the scan: a line that adds exactly the tag \<open>b\<close> and leaves the scan
  outside any tag, and a line whose one tag is neither a \<^verbatim>\<open>testResult\<close> nor an
  \<^verbatim>\<open>itemResult\<close> element.
\<close>

definition oneTag :: "string \<Rightarrow> string \<Rightarrow> bool" where
  "oneTag l b \<longleftrightarrow> (\<forall>out. foldl tagStep (out, Outside) (l @ ''\<newline>'') = (b # out, Outside))"

definition plainLine :: "string \<Rightarrow> bool" where
  "plainLine l \<longleftrightarrow>
     (\<exists>b. oneTag l b \<and> tagName b \<noteq> ''testResult'' \<and> tagName b \<noteq> ''itemResult'')"

section \<open>The output planner\<close>

text \<open>
  \<^verbatim>\<open>OutputPlan\<close> has a field \<^verbatim>\<open>resultId\<close> of its own; the selectors are told apart as
  \<open>RosterRow.resultId\<close> and \<open>OutputPlan.resultId\<close>.
\<close>

record OutputPlan =
  resultId :: string
  path :: string

definition buildOutputPlan :: "Host \<Rightarrow> string \<Rightarrow> RosterRow list \<Rightarrow> OutputPlan list" where
  "buildOutputPlan host outputDir rows =
     map (\<lambda>row. \<lparr>OutputPlan.resultId = RosterRow.resultId row,
                  path = pathJoin host outputDir
                           (''assessmentResult-'' @ RosterRow.resultId row @ ''.xml'')\<rparr>)
       rows"







definition resolveDefaultOutputDir :: "Host \<Rightarrow> string \<Rightarrow> string" where
  "resolveDefaultOutputDir host rosterPath =
     (if rosterPath = ''-'' then pathResolve host ''qti-results''
      else pathJoin host (pathDirname host (pathResolve host rosterPath)) ''qti-results'')"

section \<open>Writing\<close>

text \<open>The loop \<^verbatim>\<open>for (const output of outputs)\<close> of \<^verbatim>\<open>ensureWritable\<close>.\<close>

fun checkOutputs :: "World \<Rightarrow> OutputPlan list \<Rightarrow> bool \<Rightarrow> error + unit" where
  "checkOutputs w [] force = Inr ()"
| "checkOutputs w (output # outputs) force =
     (if existsSync w (path output) \<and> \<not> force then Inl (OutputFileExists (path output))
      else checkOutputs w outputs force)"

definition ensureWritable :: "World \<Rightarrow> string \<Rightarrow> OutputPlan list \<Rightarrow> bool \<Rightarrow> error + World" where
  "ensureWritable w outputDir outputs force =
     (if \<not> existsSync w outputDir then Inr (mkdirSync w outputDir)
      else (case checkOutputs w outputs force of Inl e \<Rightarrow> Inl e | Inr _ \<Rightarrow> Inr w))"

text \<open>
  \<^verbatim>\<open>outputs.forEach((output) => ...)\<close> of \<^verbatim>\<open>writeOutputs\<close>. An error leaves the files
  written before it in place, so the world is returned with the error as well.
\<close>

fun writeEach ::
  "(string \<rightharpoonup> RosterRow) \<Rightarrow> string \<Rightarrow> string option \<Rightarrow> string list \<Rightarrow> OutputPlan list \<Rightarrow> World
     \<Rightarrow> (error + unit) \<times> World" where
  "writeEach rowByResult testResultIdentifier testResultDatestamp itemIds [] w = (Inr (), w)"
| "writeEach rowByResult testResultIdentifier testResultDatestamp itemIds (output # outputs) w =
     (case rowByResult (OutputPlan.resultId output) of
        None \<Rightarrow> (Inl (MissingRosterRow (OutputPlan.resultId output)), w)
      | Some row \<Rightarrow>
          writeEach rowByResult testResultIdentifier testResultDatestamp itemIds outputs
            (writeFileSync w (path output)
               (buildAssessmentResultXml row testResultIdentifier testResultDatestamp itemIds)))"

text \<open>
  \<^verbatim>\<open>new Map(rows.map((row) => [row.resultId, row]))\<close>: of two rows with one key the later
  one stays.
\<close>

definition writeOutputs ::
  "OutputPlan list \<Rightarrow> RosterRow list \<Rightarrow> string \<Rightarrow> string option \<Rightarrow> string list \<Rightarrow> World
     \<Rightarrow> (error + unit) \<times> World" where
  "writeOutputs outputs rows testResultIdentifier testResultDatestamp itemIds w =
     (let rowByResult = map_of (rev (map (\<lambda>row. (RosterRow.resultId row, row)) rows))
      in writeEach rowByResult testResultIdentifier testResultDatestamp itemIds outputs w)"

section \<open>The command line\<close>

record CliArgs =
  roster :: "string option"
  assessmentTest :: "string option"
  testResultIdentifier :: "string option"
  testResultDatestamp :: "string option"
  outputDir :: "string option"
  dryRun :: bool
  json :: bool
  force :: bool
  quiet :: bool
  verbose :: bool
  help' :: bool
  version :: bool

text \<open>
  The loop of \<^verbatim>\<open>parseArgs\<close> over \<^verbatim>\<open>argv\<close>. An option with a value reads \<^verbatim>\<open>argv[i + 1]\<close>, which
  is \<^verbatim>\<open>undefined\<close> after the last argument, and skips it.
\<close>

fun parseArgsLoop :: "string list \<Rightarrow> CliArgs \<Rightarrow> error + CliArgs" where
  "parseArgsLoop [] args = Inr args"
| "parseArgsLoop (arg # rest) args =
     (if arg = ''--help'' \<or> arg = ''-h'' then parseArgsLoop rest (args\<lparr>help' := True\<rparr>)
      else if arg = ''--version'' \<or> arg = ''-V'' then parseArgsLoop rest (args\<lparr>version := True\<rparr>)
      else if arg = ''--roster''
        then parseArgsLoop (drop 1 rest)
               (args\<lparr>roster := (case rest of [] \<Rightarrow> None | v # _ \<Rightarrow> Some v)\<rparr>)
      else if arg = ''--assessment-test''
        then parseArgsLoop (drop 1 rest)
               (args\<lparr>assessmentTest := (case rest of [] \<Rightarrow> None | v # _ \<Rightarrow> Some v)\<rparr>)
      else if arg = ''--test-result-identifier''
        then parseArgsLoop (drop 1 rest)
               (args\<lparr>testResultIdentifier := (case rest of [] \<Rightarrow> None | v # _ \<Rightarrow> Some v)\<rparr>)
      else if arg = ''--test-result-datestamp''
        then parseArgsLoop (drop 1 rest)
               (args\<lparr>testResultDatestamp := (case rest of [] \<Rightarrow> None | v # _ \<Rightarrow> Some v)\<rparr>)
      else if arg = ''--output''
        then parseArgsLoop (drop 1 rest)
               (args\<lparr>outputDir := (case rest of [] \<Rightarrow> Some [] | v # _ \<Rightarrow> Some v)\<rparr>)
      else if arg = ''--dry-run'' then parseArgsLoop rest (args\<lparr>dryRun := True\<rparr>)
      else if arg = ''--json'' then parseArgsLoop rest (args\<lparr>json := True\<rparr>)
      else if arg = ''--force'' \<or> arg = ''--yes'' then parseArgsLoop rest (args\<lparr>force := True\<rparr>)
      else if arg = ''--quiet'' then parseArgsLoop rest (args\<lparr>quiet := True\<rparr>)
      else if arg = ''--verbose'' then parseArgsLoop rest (args\<lparr>verbose := True\<rparr>)
      else Inl (UnknownArgument arg))"

definition parseArgs :: "string list \<Rightarrow> error + CliArgs" where
  "parseArgs argv =
     parseArgsLoop argv
       \<lparr>roster = None, assessmentTest = None, testResultIdentifier = None,
        testResultDatestamp = None, outputDir = None, dryRun = False, json = False,
        force = False, quiet = False, verbose = False, help' = False, version = False\<rparr>"

section \<open>The orchestrator\<close>

text \<open>
  How a run ends when no error stops it. What the run prints (the help text, the
  version, the summary as text or as JSON, depending on \<^verbatim>\<open>--json\<close>, \<^verbatim>\<open>--quiet\<close> and
  \<^verbatim>\<open>--verbose\<close>) is not modelled beyond that.
\<close>

datatype outcome =
    ShowedHelp
  | ShowedVersion string
  | DryRun string "OutputPlan list"
  | Wrote string "OutputPlan list"

text \<open>
  \<^verbatim>\<open>main\<close>, with \<^verbatim>\<open>argv\<close> for \<^verbatim>\<open>process.argv.slice(2)\<close>. The result is the error that
  stopped the run or its outcome, and the world the run leaves behind. The local
  constants that share their names with fields of \<^verbatim>\<open>CliArgs\<close> carry a prime.
\<close>

definition main :: "Host \<Rightarrow> string list \<Rightarrow> World \<Rightarrow> (error + outcome) \<times> World" where
  "main host argv w =
     (case parseArgs argv of
        Inl e \<Rightarrow> (Inl e, w)
      | Inr args \<Rightarrow>
          if help' args then (Inr ShowedHelp, w)
          else if version args then (Inr (ShowedVersion (packageVersion host)), w)
          else if \<not> truthy (roster args) \<or> \<not> truthy (assessmentTest args)
            then (Inl MissingRequiredArguments, w)
          else if outputDir args \<noteq> None \<and> \<not> truthy (outputDir args)
            then (Inl OutputMustBeNonEmpty, w)
          else
            let testResultIdentifier' =
                  the (orElse (testResultIdentifier args) (Some ''assessment-test''))
            in case (if truthy (testResultDatestamp args)
                     then map_sum id Some (resolveEndAt host (the (testResultDatestamp args)))
                     else Inr None) of
                 Inl e \<Rightarrow> (Inl e, w)
               | Inr testResultDatestamp' \<Rightarrow>
                   let outputDir' =
                         (if truthy (outputDir args) then pathResolve host (the (outputDir args))
                          else resolveDefaultOutputDir host (the (roster args)))
                   in case readRosterCsv host w (the (roster args)) of
                        Inl e \<Rightarrow> (Inl e, w)
                      | Inr rows \<Rightarrow>
                          (case readAssessmentTestItemIds w (the (assessmentTest args)) of
                             Inl e \<Rightarrow> (Inl e, w)
                           | Inr itemIds \<Rightarrow>
                               let outputs = buildOutputPlan host outputDir' rows
                               in if dryRun args then (Inr (DryRun outputDir' outputs), w)
                                  else
                                    (case ensureWritable w outputDir' outputs (force args) of
                                       Inl e \<Rightarrow> (Inl e, w)
                                     | Inr w1 \<Rightarrow>
                                         (case writeOutputs outputs rows testResultIdentifier'
                                                 testResultDatestamp' itemIds w1 of
                                            (Inl e, w2) \<Rightarrow> (Inl e, w2)
                                          | (Inr _, w2) \<Rightarrow>
                                              (Inr (Wrote outputDir' outputs), w2)))))"

text \<open>
  A host for concrete runs: paths that are joined with a slash and resolve to
  themselves, the parser \<open>plainParseCsv\<close>, a \<^verbatim>\<open>Date.parse\<close> that takes the one datestamp of the repository's tests and a
  fixed clock.
\<close>

definition plainHost :: Host where
  "plainHost =
     \<lparr>pathJoin = (\<lambda>dir name. dir @ ''/'' @ name),
      pathResolve = (\<lambda>p. p),
      pathDirname = (\<lambda>p. rev (drop 1 (dropWhile (\<lambda>c. c \<noteq> CHR ''/'') (rev p)))),
      parseCsv = plainParseCsv,
      dateParseIsNaN = (\<lambda>raw. raw \<noteq> ''2026-01-27T10:00:00+09:00''),
      nowISOString = ''2026-01-27T01:00:00.000Z'',
      packageVersion = ''0.0.0''\<rparr>"


section \<open>Concrete inputs\<close>

text \<open>
  A roster and an assessment test like the fixtures of the repository's tests, and a world
  that holds them as the files \<^verbatim>\<open>roster.csv\<close> and \<^verbatim>\<open>test.xml\<close>.
\<close>

definition exampleCsv :: string where
  "exampleCsv =
     ''candidate_number,candidate_name,candidate_account,result_id\<newline>'' @
     ''1001,Yamada,student001@example.com,2001\<newline>'' @
     ''1002,Sato,student002@example.com,\<newline>''"

definition exampleXml :: string where
  \<open>exampleXml =
     ''<qti-assessment-test identifier="test">\<newline>'' @
     ''<qti-assessment-item-ref identifier="item-001" href="item-001.xml"/>\<newline>'' @
     ''<qti-assessment-item-ref identifier="item-002" href="item-002.xml" />\<newline>'' @
     ''</qti-assessment-test>\<newline>''\<close>

definition exampleWorld :: World where
  "exampleWorld =
     \<lparr>files = [''roster.csv'' \<mapsto> exampleCsv, ''test.xml'' \<mapsto> exampleXml],
      dirs = {}, stdin = []\<rparr>"

definition exampleRows :: "RosterRow list" where
  "exampleRows =
     [\<lparr>candidateNumber = ''1001'', candidateName = ''Yamada'',
       candidateAccount = Some ''student001@example.com'', candidateId = None,
       resultId = ''2001''\<rparr>,
      \<lparr>candidateNumber = ''1002'', candidateName = ''Sato'',
       candidateAccount = Some ''student002@example.com'', candidateId = None,
       resultId = ''1002''\<rparr>]"

definition examplePlan :: "OutputPlan list" where
  "examplePlan =
     [\<lparr>OutputPlan.resultId = ''2001'', path = ''out/assessmentResult-2001.xml''\<rparr>,
      \<lparr>OutputPlan.resultId = ''1002'', path = ''out/assessmentResult-1002.xml''\<rparr>]"

text \<open>
  A second run over the same inputs: the output directory \<^verbatim>\<open>out\<close> exists and holds the
  document of candidate 1002 from an earlier run.
\<close>

definition conflictWorld :: World where
  "conflictWorld =
     \<lparr>files = [''roster.csv'' \<mapsto> exampleCsv, ''test.xml'' \<mapsto> exampleXml,
               ''out/assessmentResult-1002.xml'' \<mapsto> ''<earlier/>''],
      dirs = {''out''}, stdin = []\<rparr>"

definition exampleArgv :: "string list" where
  "exampleArgv =
     [''--roster'', ''roster.csv'', ''--assessment-test'', ''test.xml'', ''--output'', ''out'']"

definition exampleArgs :: CliArgs where
  "exampleArgs =
     \<lparr>roster = Some ''roster.csv'', assessmentTest = Some ''test.xml'',
      testResultIdentifier = None, testResultDatestamp = None, outputDir = Some ''out'',
      dryRun = False, json = False, force = False, quiet = False, verbose = False,
      help' = False, version = False\<rparr>"

text \<open>
  Three more rosters: one with a blank line between its two data rows, one with a row of
  blank cells in that place, and one whose result identifier holds slashes.
\<close>

definition blankLineCsv :: string where
  "blankLineCsv = ''candidate_number,candidate_name\<newline>1001,Yamada\<newline>\<newline>1002,Sato\<newline>''"

definition blankCellsCsv :: string where
  "blankCellsCsv = ''candidate_number,candidate_name\<newline>1001,Yamada\<newline>,\<newline>1002,Sato\<newline>''"

definition slashCsv :: string where
  "slashCsv = ''candidate_number,candidate_name,result_id\<newline>1001,Yamada,a/../x\<newline>''"


section \<open>Properties of the roster reader\<close>

lemma last_dropWhile_nonempty:
  "dropWhile P xs \<noteq> [] \<Longrightarrow> last (dropWhile P xs) = last xs"
  by (induction xs) (auto split: if_splits)

lemma trim_no_outer: "\<not> hasOuterWhiteSpace (trim s)"
proof (cases "trim s = []")
  case True
  then show ?thesis by (simp add: hasOuterWhiteSpace_def)
next
  case False
  define t where "t = dropWhile isWhiteSpace s"
  define u where "u = dropWhile isWhiteSpace (rev t)"
  have tu: "trim s = rev u" by (simp add: trim_def t_def u_def)
  with False have u: "u \<noteq> []" by simp
  then have t: "t \<noteq> []" by (auto simp: u_def)
  have "last (trim s) = hd u" using u by (simp add: tu last_rev)
  moreover have "\<not> isWhiteSpace (hd u)" using u unfolding u_def by (rule hd_dropWhile)
  moreover have "hd (trim s) = last u" using u by (simp add: tu hd_rev)
  moreover have "last u = last (rev t)" using u unfolding u_def by (rule last_dropWhile_nonempty)
  moreover have "last (rev t) = hd t" using t by (simp add: last_rev)
  moreover have "\<not> isWhiteSpace (hd t)" using t unfolding t_def by (rule hd_dropWhile)
  ultimately show ?thesis by (simp add: hasOuterWhiteSpace_def)
qed

lemma the_trim_no_outer:
  "truthy (map_option trim v) \<Longrightarrow> \<not> hasOuterWhiteSpace (the (map_option trim v))"
  by (cases v) (simp_all add: trim_no_outer)

lemma orElse_trim_no_outer:
  "orElse (map_option trim v) None = Some a \<Longrightarrow> \<not> hasOuterWhiteSpace a"
  by (cases v) (auto simp: orElse_def trim_no_outer split: if_splits)

lemma rosterLoop_trimmed:
  "rosterLoop records index rows seen = Inr out \<Longrightarrow> \<forall>r \<in> set rows. rowTrimmed r \<Longrightarrow>
     \<forall>r \<in> set out. rowTrimmed r"
proof (induction records arbitrary: index rows seen)
  case Nil
  then show ?case by simp
next
  case (Cons r0 rs)
  let ?cn = "map_option trim (r0 ''candidate_number'')"
  let ?rid = "orElse (map_option trim (r0 ''result_id'')) ?cn"
  let ?row = "\<lparr>candidateNumber = the ?cn,
      candidateName = the (map_option trim (r0 ''candidate_name'')),
      candidateAccount = orElse (map_option trim (r0 ''candidate_account'')) None,
      candidateId = orElse (map_option trim (r0 ''candidate_id'')) None,
      resultId = the ?rid\<rparr>"
  from Cons.prems(1) have cn: "truthy ?cn"
    and name: "truthy (map_option trim (r0 ''candidate_name''))"
    by (auto simp: Let_def split: if_splits)
  have rid: "\<not> hasOuterWhiteSpace (the ?rid)"
    using cn by (simp add: orElse_def the_trim_no_outer)
  have row: "rowTrimmed ?row"
    unfolding rowTrimmed_def
    using rid cn name by (auto simp: the_trim_no_outer dest: orElse_trim_no_outer)
  from Cons.prems(1) obtain index' seen' where
    "rosterLoop rs index' (rows @ [?row]) seen' = Inr out"
    by (auto simp: Let_def split: if_splits)
  moreover have "\<forall>r \<in> set (rows @ [?row]). rowTrimmed r"
    using Cons.prems(2) row by simp
  ultimately show ?case by (rule Cons.IH)
qed

lemma readRosterRecords_trimmed:
  "readRosterRecords records = Inr rows \<Longrightarrow> r \<in> set rows \<Longrightarrow> rowTrimmed r"
  using rosterLoop_trimmed [of records 0 "[]" "{}" rows]
  by (auto simp: readRosterRecords_def split: if_splits)

lemma readRosterCsv_records:
  "readRosterCsv host w rosterPath = Inr rows \<Longrightarrow> \<exists>records. readRosterRecords records = Inr rows"
  by (auto simp: readRosterCsv_def split: sum.splits if_splits)



text \<open>
  Claim C9. Every field of every row that the roster reader returns is free of leading
  and trailing white space: \<^verbatim>\<open>readRosterCsv\<close> applies \<^verbatim>\<open>trim\<close> to each of the five cells,
  whatever the CSV parser has left around them (in the run below a vertical tab and a
  no-break space before a value, which the parser's own trimming does not remove).
\<close>

theorem roster_fields_trimmed:
  assumes "readRosterCsv host w rosterPath = Inr rows" and "row \<in> set rows"
  shows "\<not> hasOuterWhiteSpace (candidateNumber row) \<and>
         \<not> hasOuterWhiteSpace (candidateName row) \<and>
         (\<forall>a. candidateAccount row = Some a \<longrightarrow> \<not> hasOuterWhiteSpace a) \<and>
         (\<forall>i. candidateId row = Some i \<longrightarrow> \<not> hasOuterWhiteSpace i) \<and>
         \<not> hasOuterWhiteSpace (RosterRow.resultId row)"
proof -
  from assms(1) obtain records where "readRosterRecords records = Inr rows"
    using readRosterCsv_records by blast
  then have "rowTrimmed row" using assms(2) by (rule readRosterRecords_trimmed)
  then show ?thesis by (simp add: rowTrimmed_def)
qed

theorem roster_fields_trimmed_witness:
  "readRosterCsv plainHost
     \<lparr>files = Map.empty, dirs = {},
      stdin = ''candidate_number,candidate_name,candidate_account,candidate_id,result_id\<newline>''
              @ [CHR 0x0B] @ ''1001,'' @ [CHR 0xA0] @ ''Ann Lee'' @ [CHR 0xA0]
              @ '',ann@example.com,,'' @ [CHR 0x0B] @ ''r1'' @ [CHR 0x0B] @ ''\<newline>''\<rparr>
     ''-''
   = Inr [\<lparr>candidateNumber = ''1001'', candidateName = ''Ann Lee'',
            candidateAccount = Some ''ann@example.com'', candidateId = None,
            resultId = ''r1''\<rparr>] \<and>
   \<not> hasOuterWhiteSpace ''1001'' \<and> \<not> hasOuterWhiteSpace ''Ann Lee'' \<and>
   \<not> hasOuterWhiteSpace ''ann@example.com'' \<and> \<not> hasOuterWhiteSpace ''r1''"
proof -
  let ?w = "\<lparr>files = Map.empty, dirs = {},
      stdin = ''candidate_number,candidate_name,candidate_account,candidate_id,result_id\<newline>''
              @ [CHR 0x0B] @ ''1001,'' @ [CHR 0xA0] @ ''Ann Lee'' @ [CHR 0xA0]
              @ '',ann@example.com,,'' @ [CHR 0x0B] @ ''r1'' @ [CHR 0x0B] @ ''\<newline>''\<rparr>"
  let ?row = "\<lparr>candidateNumber = ''1001'', candidateName = ''Ann Lee'',
            candidateAccount = Some ''ann@example.com'', candidateId = None,
            resultId = ''r1''\<rparr>"
  have rows: "readRosterCsv plainHost ?w ''-'' = Inr [?row]"
    by code_simp
  from roster_fields_trimmed [OF rows, of ?row] rows show ?thesis by simp
qed

text \<open>The rosters of the concrete runs lie in the scope of the parser \<open>plainParseCsv\<close>.\<close>

lemma concrete_rosters_plain:
  "plainCsvText exampleCsv" "plainCsvText blankLineCsv" "plainCsvText blankCellsCsv"
  "plainCsvText slashCsv"
  "plainCsvText
     (''candidate_number,candidate_name,candidate_account,candidate_id,result_id\<newline>''
      @ [CHR 0x0B] @ ''1001,'' @ [CHR 0xA0] @ ''Ann Lee'' @ [CHR 0xA0]
      @ '',ann@example.com,,'' @ [CHR 0x0B] @ ''r1'' @ [CHR 0x0B] @ ''\<newline>'')"
  by code_simp+







lemma rosterLoop_blank_candidate_number:
  "r \<in> set records \<Longrightarrow> cell r ''candidate_number'' = [] \<Longrightarrow>
     \<exists>e. rosterLoop records index rows seen = Inl e"
proof (induction records arbitrary: index rows seen)
  case Nil
  then show ?case by simp
next
  case (Cons r0 rs)
  show ?case
  proof (cases "r = r0")
    case True
    with Cons.prems(2) have "\<not> truthy (map_option trim (r0 ''candidate_number''))"
      by (auto simp: cell_def split: option.splits)
    then show ?thesis by (simp add: Let_def)
  next
    case False
    with Cons.prems(1) have "r \<in> set rs" by simp
    then have "\<And>index rows seen. \<exists>e. rosterLoop rs index rows seen = Inl e"
      using Cons.IH Cons.prems(2) by blast
    then show ?thesis by (simp add: Let_def)
  qed
qed




section \<open>Blank rows, empty identifiers and the empty datestamp\<close>

text \<open>
  Claim C1, as stated, fails for a blank line. A roster with an empty line between its
  two data rows is read without an error: the reader calls the parser with
  \<^verbatim>\<open>skip_empty_lines: true\<close>, the line yields no record and the two remaining rows are
  returned.
\<close>

theorem blank_row_is_skipped:
  "plainCsvText blankLineCsv \<and>
   readRosterCsv plainHost \<lparr>files = Map.empty, dirs = {}, stdin = blankLineCsv\<rparr> ''-''
   = Inr [\<lparr>candidateNumber = ''1001'', candidateName = ''Yamada'',
            candidateAccount = None, candidateId = None, resultId = ''1001''\<rparr>,
          \<lparr>candidateNumber = ''1002'', candidateName = ''Sato'',
            candidateAccount = None, candidateId = None, resultId = ''1002''\<rparr>]"
  by code_simp

text \<open>
  Claim C1, amended. Whatever the parser is: when it delivers a record all of whose cells
  are blank (missing, empty or white space), as \<^verbatim>\<open>csv-parse\<close> does for a row of empty
  cells, the roster reader fails with an error and returns no rows.
\<close>

theorem blank_cells_row_is_rejected:
  assumes "(if rosterPath = ''-'' then Inr (stdin w) else readFileSync w rosterPath) = Inr csvText"
    and "parseCsv host csvText = Inr records"
    and "r \<in> set records"
    and "\<forall>c. cell r c = []"
  shows "\<exists>e. readRosterCsv host w rosterPath = Inl e"
proof -
  from assms(4) have "cell r ''candidate_number'' = []" by simp
  with assms(3) have "\<exists>e. rosterLoop records 0 [] {} = Inl e"
    by (rule rosterLoop_blank_candidate_number)
  moreover from assms(3) have "records \<noteq> []" by auto
  ultimately show ?thesis
    using assms(1,2) by (auto simp: readRosterCsv_def readRosterRecords_def)
qed

theorem blank_cells_row_is_rejected_witness:
  "plainCsvText blankCellsCsv \<and>
   readRosterCsv plainHost \<lparr>files = Map.empty, dirs = {}, stdin = blankCellsCsv\<rparr> ''-''
     = Inl (MissingCandidateNumber 3)"
proof -
  let ?w = "\<lparr>files = Map.empty, dirs = {}, stdin = blankCellsCsv\<rparr>"
  let ?r = "[''candidate_number'' \<mapsto> [], ''candidate_name'' \<mapsto> []]"
  let ?records = "[[''candidate_number'' \<mapsto> ''1001'', ''candidate_name'' \<mapsto> ''Yamada''], ?r,
                   [''candidate_number'' \<mapsto> ''1002'', ''candidate_name'' \<mapsto> ''Sato'']]"
  have scope: "plainCsvText blankCellsCsv" by code_simp
  have src: "(if ''-'' = ''-'' then Inr (stdin ?w) else readFileSync ?w ''-'') = Inr blankCellsCsv"
    by simp
  have parsed: "parseCsv plainHost blankCellsCsv = Inr ?records"
    by (simp add: plainHost_def plainParseCsv_def blankCellsCsv_def csvTrim_def
          isCsvTrimChar_def isWhiteSpace_def Let_def)
  have blank: "\<forall>c. cell ?r c = []"
    by (simp add: cell_def trim_def)
  have run: "readRosterCsv plainHost ?w ''-'' = Inl (MissingCandidateNumber 3)"
    by code_simp
  from blank_cells_row_is_rejected [OF src parsed _ blank] scope run
  show ?thesis by simp
qed

text \<open>
  The test \<^verbatim>\<open>if (!itemId)\<close> of the extractor never fires: group 2 of the pattern,
  \<^verbatim>\<open>([^"']+)\<close>, holds at least one character.
\<close>

lemma matchIdentifier_nonempty: "matchIdentifier s = Some (v, r) \<Longrightarrow> v \<noteq> []"
  by (auto simp: matchIdentifier_def Let_def split: option.splits list.splits if_splits)

lemma matchGap_nonempty: "matchGap prev s = Some (v, r) \<Longrightarrow> v \<noteq> []"
proof (induction s arbitrary: prev)
  case Nil
  then show ?case by (auto split: if_splits dest: matchIdentifier_nonempty)
next
  case (Cons c cs)
  show ?case
  proof (cases "c \<noteq> CHR ''>'' \<and> matchGap c cs \<noteq> None")
    case True
    with Cons.prems have "matchGap c cs = Some (v, r)" by auto
    then show ?thesis by (rule Cons.IH)
  next
    case False
    with Cons.prems have "matchIdentifier (c # cs) = Some (v, r)"
      by (auto split: if_splits option.splits)
    then show ?thesis by (rule matchIdentifier_nonempty)
  qed
qed

lemma matchItemRef_nonempty: "matchItemRef s = Some (v, r) \<Longrightarrow> v \<noteq> []"
  by (auto simp: matchItemRef_def split: option.splits if_splits dest: matchGap_nonempty)

lemma execAll_nonempty: "[] \<notin> set (execAll s)"
proof (induction s rule: execAll.induct)
  case (1 s)
  show ?case
  proof (cases "matchItemRef s")
    case None
    then have unfold: "execAll s = (case s of [] \<Rightarrow> [] | _ # cs \<Rightarrow> execAll cs)"
      by (subst execAll.simps) simp
    show ?thesis
    proof (cases s)
      case Nil
      with unfold show ?thesis by simp
    next
      case (Cons c cs)
      with 1 None have "[] \<notin> set (execAll cs)" by simp
      with unfold Cons show ?thesis by simp
    qed
  next
    case (Some m)
    obtain v r where m: "m = (v, r)" by (cases m)
    with Some 1 have "[] \<notin> set (execAll r)" by simp
    moreover have "v \<noteq> []" using Some m matchItemRef_nonempty by simp
    ultimately show ?thesis using Some m by (simp add: execAll.simps [of s])
  qed
qed

lemma checkItemIds_not_empty_error:
  "[] \<notin> set itemIds \<Longrightarrow> checkItemIds itemIds seen \<noteq> Inl ItemIdentifierEmpty"
  by (induction itemIds arbitrary: seen) auto

lemma extractItemIds_not_empty_error: "extractItemIds xml \<noteq> Inl ItemIdentifierEmpty"
  using checkItemIds_not_empty_error [OF execAll_nonempty, of xml "{}"]
  by (auto simp: extractItemIds_def Let_def split: sum.splits)

text \<open>
  Claim C4. An assessment test with two item references, the second with the identifier
  \<^verbatim>\<open>""\<close>, is read without an error: the pattern does not match the second reference, and
  the extractor returns the identifier of the first one alone.
\<close>

theorem empty_identifier_is_ignored:
  \<open>readAssessmentTestItemIds
     \<lparr>files = [''test.xml'' \<mapsto>
        ''<qti-assessment-test identifier="test">'' @
        ''<qti-assessment-item-ref identifier="item-001" href="item-001.xml"/>'' @
        ''<qti-assessment-item-ref identifier="" href="item-002.xml"/>'' @
        ''</qti-assessment-test>''],
      dirs = {}, stdin = []\<rparr>
     ''test.xml''
   = Inr [''item-001'']\<close>
  by code_simp

text \<open>
  Claim C3. A run with \<^verbatim>\<open>--test-result-datestamp ""\<close> is not stopped by a datestamp
  error, whatever \<^verbatim>\<open>Date.parse\<close> accepts and whatever the clock shows: \<^verbatim>\<open>main\<close> tests the
  argument for truthiness, takes the empty string for an omitted datestamp and writes the
  two documents.
\<close>

theorem empty_datestamp_is_accepted:
  "fst (main (plainHost\<lparr>dateParseIsNaN := isNaN, nowISOString := now\<rparr>)
          [''--roster'', ''roster.csv'', ''--assessment-test'', ''test.xml'',
           ''--output'', ''out'', ''--test-result-datestamp'', '''']
          exampleWorld)
   = Inr (Wrote ''out'' examplePlan)"
  by code_simp

theorem empty_datestamp_is_accepted_witness:
  "fst (main (plainHost\<lparr>dateParseIsNaN := \<lambda>raw. True,
                          nowISOString := ''2026-01-27T01:00:00.000Z''\<rparr>)
          [''--roster'', ''roster.csv'', ''--assessment-test'', ''test.xml'',
           ''--output'', ''out'', ''--test-result-datestamp'', '''']
          exampleWorld)
   = Inr (Wrote ''out'' examplePlan)"
  by (rule empty_datestamp_is_accepted)

section \<open>Properties of the write step\<close>

lemma writeEach_found:
  "\<forall>output \<in> set outputs. \<exists>row. rowByResult (OutputPlan.resultId output) = Some row \<Longrightarrow>
     fst (writeEach rowByResult tid ds ids outputs w) = Inr ()"
  by (induction outputs arbitrary: w) (auto split: option.splits)

lemma rowByResult_defined:
  assumes "row \<in> set rows"
  shows "\<exists>r. map_of (rev (map (\<lambda>row. (RosterRow.resultId row, row)) rows))
               (RosterRow.resultId row) = Some r"
proof -
  from assms have "RosterRow.resultId row
      \<in> fst ` set (rev (map (\<lambda>row. (RosterRow.resultId row, row)) rows))"
    by force
  then have "map_of (rev (map (\<lambda>row. (RosterRow.resultId row, row)) rows))
               (RosterRow.resultId row) \<noteq> None"
    by (simp only: map_of_eq_None_iff not_not)
  then show ?thesis by blast
qed

text \<open>
  Claim C10. With the plan that the planner computes from the rows, the write loop never
  takes the branch \<^verbatim>\<open>Missing roster row for resultId\<close>: every entry of the plan finds its
  row in the map built from the rows.
\<close>

theorem missing_roster_row_unreachable:
  "fst (writeOutputs (buildOutputPlan host dir rows) rows tid ds ids w)
     \<noteq> Inl (MissingRosterRow rid)"
proof -
  have "\<forall>output \<in> set (buildOutputPlan host dir rows).
          \<exists>row. map_of (rev (map (\<lambda>row. (RosterRow.resultId row, row)) rows))
                  (OutputPlan.resultId output) = Some row"
    using rowByResult_defined by (auto simp: buildOutputPlan_def)
  then have "fst (writeOutputs (buildOutputPlan host dir rows) rows tid ds ids w) = Inr ()"
    unfolding writeOutputs_def Let_def by (rule writeEach_found)
  then show ?thesis by simp
qed

lemma checkOutputs_conflict:
  "output \<in> set outputs \<Longrightarrow> existsSync w (path output) \<Longrightarrow>
     \<exists>out \<in> set outputs. existsSync w (path out) \<and>
        checkOutputs w outputs False = Inl (OutputFileExists (path out))"
  by (induction outputs) auto

lemma ensureWritable_conflict:
  assumes "existsSync w dir" and "output \<in> set outputs" and "existsSync w (path output)"
  shows "\<exists>out \<in> set outputs. existsSync w (path out) \<and>
           ensureWritable w dir outputs False = Inl (OutputFileExists (path out))"
  using checkOutputs_conflict [OF assms(2,3)] assms(1)
  by (auto simp: ensureWritable_def)

lemma resolveEndAt_cases:
  "resolveEndAt host raw = Inl BadDatestamp \<or> (\<exists>d. resolveEndAt host raw = Inr d)"
  by (simp add: resolveEndAt_def)

text \<open>
  Claim C2. A run that gets as far as the write step (arguments parsed, no help or version
  requested, required options given, datestamp and both inputs valid, no dry run) with an
  output directory that exists, a planned output file that exists and no overwrite flag
  ends with the conflict error for a planned file that exists, and leaves the world as it
  found it: no file is created or changed.
\<close>

theorem conflict_aborts_before_any_write:
  assumes "parseArgs argv = Inr args"
    and "\<not> help' args" and "\<not> version args" and "\<not> dryRun args" and "\<not> force args"
    and "truthy (roster args)" and "truthy (assessmentTest args)"
    and "outputDir args \<noteq> Some []"
    and "truthy (testResultDatestamp args) \<Longrightarrow>
           resolveEndAt host (the (testResultDatestamp args)) \<noteq> Inl BadDatestamp"
    and "readRosterCsv host w (the (roster args)) = Inr rows"
    and "readAssessmentTestItemIds w (the (assessmentTest args)) = Inr itemIds"
    and "dir = (if truthy (outputDir args) then pathResolve host (the (outputDir args))
                else resolveDefaultOutputDir host (the (roster args)))"
    and "existsSync w dir"
    and "output \<in> set (buildOutputPlan host dir rows)"
    and "existsSync w (path output)"
  shows "\<exists>out \<in> set (buildOutputPlan host dir rows).
           existsSync w (path out) \<and>
           main host argv w = (Inl (OutputFileExists (path out)), w)"
proof -
  let ?outputs = "buildOutputPlan host dir rows"
  from ensureWritable_conflict [OF assms(13) assms(14) assms(15)]
  obtain out where out: "out \<in> set ?outputs" "existsSync w (path out)"
    and ens: "ensureWritable w dir ?outputs False = Inl (OutputFileExists (path out))"
    by blast
  obtain ds where ds: "(if truthy (testResultDatestamp args)
                     then map_sum id Some (resolveEndAt host (the (testResultDatestamp args)))
                     else Inr None) = Inr ds"
    using assms(9) resolveEndAt_cases [of host "the (testResultDatestamp args)"]
    by (cases "truthy (testResultDatestamp args)") auto
  have od: "\<not> (outputDir args \<noteq> None \<and> \<not> truthy (outputDir args))"
    using assms(8) by (cases "outputDir args") auto
  have "main host argv w = (Inl (OutputFileExists (path out)), w)"
    unfolding main_def
    using assms(1-7) od ds assms(10,11) ens
    by (simp add: Let_def assms(12) [symmetric] del: truthy.simps)
  with out show ?thesis by blast
qed

theorem conflict_aborts_before_any_write_witness:
  "parseArgs exampleArgv = Inr exampleArgs \<and>
   \<not> dryRun exampleArgs \<and> \<not> force exampleArgs \<and>
   existsSync conflictWorld ''out'' \<and>
   existsSync conflictWorld ''out/assessmentResult-1002.xml'' \<and>
   main plainHost exampleArgv conflictWorld =
     (Inl (OutputFileExists ''out/assessmentResult-1002.xml''), conflictWorld)"
proof -
  let ?output = "\<lparr>OutputPlan.resultId = ''1002'', path = ''out/assessmentResult-1002.xml''\<rparr>"
  have args: "parseArgs exampleArgv = Inr exampleArgs" by code_simp
  have flags: "\<not> help' exampleArgs" "\<not> version exampleArgs" "\<not> dryRun exampleArgs"
    "\<not> force exampleArgs" "truthy (roster exampleArgs)" "truthy (assessmentTest exampleArgs)"
    "outputDir exampleArgs \<noteq> Some []"
    by (simp_all add: exampleArgs_def)
  have ds: "truthy (testResultDatestamp exampleArgs) \<Longrightarrow>
      resolveEndAt plainHost (the (testResultDatestamp exampleArgs)) \<noteq> Inl BadDatestamp"
    by (simp add: exampleArgs_def)
  have rows: "readRosterCsv plainHost conflictWorld (the (roster exampleArgs)) = Inr exampleRows"
    by code_simp
  have ids: "readAssessmentTestItemIds conflictWorld (the (assessmentTest exampleArgs))
               = Inr [''item-001'', ''item-002'']"
    by code_simp
  have dir: "''out'' = (if truthy (outputDir exampleArgs)
                        then pathResolve plainHost (the (outputDir exampleArgs))
                        else resolveDefaultOutputDir plainHost (the (roster exampleArgs)))"
    by (simp add: exampleArgs_def plainHost_def)
  have plan: "buildOutputPlan plainHost ''out'' exampleRows = examplePlan" by code_simp
  have dirExists: "existsSync conflictWorld ''out''"
    by (simp add: existsSync_def conflictWorld_def)
  have mem: "?output \<in> set (buildOutputPlan plainHost ''out'' exampleRows)"
    by (simp add: plan examplePlan_def)
  have fileExists: "existsSync conflictWorld (path ?output)"
    by (simp add: existsSync_def conflictWorld_def)
  from conflict_aborts_before_any_write
         [OF args flags ds rows ids dir dirExists mem fileExists]
  obtain out where out: "out \<in> set examplePlan" "existsSync conflictWorld (path out)"
    and run: "main plainHost exampleArgv conflictWorld = (Inl (OutputFileExists (path out)), conflictWorld)"
    unfolding plan by blast
  from out have "path out = ''out/assessmentResult-1002.xml''"
    by (auto simp: examplePlan_def existsSync_def conflictWorld_def)
  with run args flags dirExists fileExists show ?thesis by simp
qed


section \<open>Properties of the document renderer\<close>

text \<open>
  The five replacements of \<^verbatim>\<open>escapeXml\<close> amount to one pass that replaces each reserved
  character by its entity, so the escaped text holds no \<^verbatim>\<open><\<close>, \<^verbatim>\<open>>\<close> or quote, and
  reading the entities back gives the text that was escaped. The text of a document is
  its lines, each followed by a line feed. A datestamp that \<^verbatim>\<open>main\<close> passes on is not
  empty, as long as the clock does not show the empty string. Every line of a document
  holds one tag, and the scan of the whole text finds these tags in the order of the
  lines.
\<close>

lemma replaceAll_append: "replaceAll c r (a @ b) = replaceAll c r a @ replaceAll c r b"
  by (simp add: replaceAll_def)

lemma replaceAll_Cons: "replaceAll c r (x # xs) = (if x = c then r else [x]) @ replaceAll c r xs"
  by (simp add: replaceAll_def)

lemma replaceAll_Nil: "replaceAll c r [] = []"
  by (simp add: replaceAll_def)

lemma escapeXml_Cons:
  "escapeXml (x # xs) =
     (if x = CHR ''&'' then ''&amp;''
      else if x = CHR ''<'' then ''&lt;''
      else if x = CHR ''>'' then ''&gt;''
      else if x = CHR 0x22 then ''&quot;''
      else if x = CHR 0x27 then ''&apos;''
      else [x]) @ escapeXml xs"
  by (simp add: escapeXml_def replaceAll_Cons replaceAll_append replaceAll_Nil)

lemma escapeXml_Nil: "escapeXml [] = []"
  by (simp add: escapeXml_def replaceAll_Nil)

lemma escapeXml_no_markup:
  "set (escapeXml v) \<inter> {CHR ''<'', CHR ''>'', CHR 0x22, CHR 0x27} = {}"
  by (induction v) (auto simp: escapeXml_Nil escapeXml_Cons split: if_splits)

lemma joinLines_concat:
  "ls \<noteq> [] \<Longrightarrow> joinLines ls @ ''\<newline>'' = concat (map (\<lambda>l. l @ ''\<newline>'') ls)"
  by (induction ls rule: joinLines.induct) auto

lemma document_is_its_lines:
  "buildAssessmentResultXml row tid ds ids =
     concat (map (\<lambda>l. l @ ''\<newline>'') (assessmentResultLines row tid ds ids))"
  unfolding buildAssessmentResultXml_def
  by (rule joinLines_concat) (simp add: assessmentResultLines_def)

lemma resolved_datestamp_nonempty:
  "raw \<noteq> [] \<Longrightarrow> nowISOString host \<noteq> [] \<Longrightarrow> resolveEndAt host raw = Inr d \<Longrightarrow> d \<noteq> []"
  by (auto simp: resolveEndAt_def split: if_splits)


lemma escapeXml_no_dquote [simp]: "CHR 0x22 \<notin> set (escapeXml v)"
  using escapeXml_no_markup [of v] by auto

lemma showNat_digits: "set (showNat n) \<subseteq> set ''0123456789''"
proof (induction n rule: showNat.induct)
  case (1 n)
  show ?case
  proof (cases "n < 10")
    case True
    then have "''0123456789'' ! n \<in> set ''0123456789''"
      by (intro nth_mem) simp
    with True show ?thesis by (subst showNat.simps) simp
  next
    case False
    have "''0123456789'' ! (n mod 10) \<in> set ''0123456789''"
      by (intro nth_mem) simp
    with False 1 show ?thesis by (subst showNat.simps) simp
  qed
qed

lemma showNat_no_dquote [simp]: "CHR 0x22 \<notin> set (showNat n)"
  using showNat_digits [of n] by auto

lemma scan_quoted:
  "q \<notin> set v \<Longrightarrow> foldl tagStep (out, InQuote q acc) v = (out, InQuote q (rev v @ acc))"
  by (induction v arbitrary: acc) auto

lemma attr_quoted:
  "q \<notin> set v \<Longrightarrow>
     foldl attrStep (out, InAttrValue n q acc) v = (out, InAttrValue n q (rev v @ acc))"
  by (induction v arbitrary: acc) auto

lemma namespaces_no_dquote [simp]:
  "CHR 0x22 \<notin> set RESULTS_NAMESPACE" "CHR 0x22 \<notin> set XSI_NAMESPACE"
  "CHR 0x22 \<notin> set SCHEMA_LOCATION"
  by (simp_all add: RESULTS_NAMESPACE_def XSI_NAMESPACE_def SCHEMA_LOCATION_def)

lemma plain_declaration: \<open>plainLine ''<?xml version="1.0" encoding="UTF-8"?>''\<close>
  by (simp add: plainLine_def oneTag_def isQuote_def tagName_def)

lemma plain_root:
  \<open>plainLine (''<assessmentResult xmlns="'' @ RESULTS_NAMESPACE @ ''" xmlns:xsi="'' @ XSI_NAMESPACE
        @ ''" xsi:schemaLocation="'' @ SCHEMA_LOCATION @ ''">'')\<close>
  by (simp add: plainLine_def oneTag_def isQuote_def tagName_def scan_quoted)

lemma plain_context: \<open>plainLine (''  <context sourcedId="'' @ escapeXml v @ ''">'')\<close>
  by (simp add: plainLine_def oneTag_def isQuote_def tagName_def scan_quoted)

lemma plain_session:
  \<open>plainLine (''    <sessionIdentifier sourceID="candidateName" identifier="''
        @ escapeXml v @ ''" />'')\<close>
  \<open>plainLine (''    <sessionIdentifier sourceID="candidateId" identifier="''
        @ escapeXml v @ ''" />'')\<close>
  \<open>plainLine (''    <sessionIdentifier sourceID="candidateAccount" identifier="''
        @ escapeXml v @ ''" />'')\<close>
  by (simp_all add: plainLine_def oneTag_def isQuote_def tagName_def scan_quoted)

lemma plain_closing: "plainLine ''  </context>''" "plainLine ''</assessmentResult>''"
  by (simp_all add: plainLine_def oneTag_def isQuote_def tagName_def)

lemma scan_plain_lines:
  "\<forall>l \<in> set ls. plainLine l \<Longrightarrow>
     \<exists>bs. foldl tagStep (out, Outside) (concat (map (\<lambda>l. l @ ''\<newline>'') ls)) = (bs @ out, Outside) \<and>
          (\<forall>b \<in> set bs. tagName b \<noteq> ''testResult'' \<and> tagName b \<noteq> ''itemResult'')"
proof (induction ls arbitrary: out)
  case Nil
  then show ?case by simp
next
  case (Cons l ls)
  from Cons.prems obtain b where b: "oneTag l b"
    "tagName b \<noteq> ''testResult''" "tagName b \<noteq> ''itemResult''"
    by (auto simp: plainLine_def)
  from Cons.prems have "\<forall>l \<in> set ls. plainLine l" by simp
  from Cons.IH [OF this, of "b # out"] obtain bs where
    bs: "foldl tagStep (b # out, Outside) (concat (map (\<lambda>l. l @ ''\<newline>'') ls)) = (bs @ b # out, Outside)"
    "\<forall>b \<in> set bs. tagName b \<noteq> ''testResult'' \<and> tagName b \<noteq> ''itemResult''"
    by blast
  have "foldl tagStep (out, Outside) (concat (map (\<lambda>l. l @ ''\<newline>'') (l # ls)))
          = ((bs @ [b]) @ out, Outside)"
    using b(1) bs(1) by (simp add: oneTag_def)
  moreover have "\<forall>b \<in> set (bs @ [b]). tagName b \<noteq> ''testResult'' \<and> tagName b \<noteq> ''itemResult''"
    using b(2,3) bs(2) by simp
  ultimately show ?case by blast
qed

lemma scan_tag_lines:
  "\<forall>x \<in> set xs. oneTag (f x) (g x) \<Longrightarrow>
     foldl tagStep (out, Outside) (concat (map (\<lambda>x. f x @ ''\<newline>'') xs))
       = (rev (map g xs) @ out, Outside)"
  by (induction xs arbitrary: out) (simp_all add: oneTag_def)

lemma item_line_plain:
  \<open>oneTag (''  <itemResult identifier="'' @ escapeXml itemId
                     @ ''" sequenceIndex="'' @ showNat k
                     @ ''" sessionStatus="final" />'')
     (''itemResult identifier="'' @ escapeXml itemId
                     @ ''" sequenceIndex="'' @ showNat k
                     @ ''" sessionStatus="final" /'')\<close>
  by (simp add: oneTag_def isQuote_def scan_quoted)

lemma item_line_stamped:
  \<open>oneTag (''  <itemResult identifier="'' @ escapeXml itemId
                     @ ''" sequenceIndex="'' @ showNat k
                     @ ''" datestamp="'' @ escapeXml d
                     @ ''" sessionStatus="final" />'')
     (''itemResult identifier="'' @ escapeXml itemId
                     @ ''" sequenceIndex="'' @ showNat k
                     @ ''" datestamp="'' @ escapeXml d
                     @ ''" sessionStatus="final" /'')\<close>
  by (simp add: oneTag_def isQuote_def scan_quoted)

lemma test_line_plain:
  \<open>oneTag (''  <testResult identifier="'' @ escapeXml tid @ ''" />'')
     (''testResult identifier="'' @ escapeXml tid @ ''" /'')\<close>
  by (simp add: oneTag_def isQuote_def scan_quoted)

lemma test_line_stamped:
  \<open>oneTag (''  <testResult identifier="'' @ escapeXml tid
               @ ''" datestamp="'' @ escapeXml d @ ''" />'')
     (''testResult identifier="'' @ escapeXml tid
               @ ''" datestamp="'' @ escapeXml d @ ''" /'')\<close>
  by (simp add: oneTag_def isQuote_def scan_quoted)

lemma attrs_item_plain:
  \<open>xmlAttrs (''itemResult identifier="'' @ escapeXml itemId
                     @ ''" sequenceIndex="'' @ showNat k
                     @ ''" sessionStatus="final" /'')
    = [(''identifier'', escapeXml itemId), (''sequenceIndex'', showNat k),
       (''sessionStatus'', ''final'')]\<close>
  by (simp add: xmlAttrs_def isQuote_def attr_quoted)

lemma attrs_item_stamped:
  \<open>xmlAttrs (''itemResult identifier="'' @ escapeXml itemId
                     @ ''" sequenceIndex="'' @ showNat k
                     @ ''" datestamp="'' @ escapeXml d
                     @ ''" sessionStatus="final" /'')
    = [(''identifier'', escapeXml itemId), (''sequenceIndex'', showNat k),
       (''datestamp'', escapeXml d), (''sessionStatus'', ''final'')]\<close>
  by (simp add: xmlAttrs_def isQuote_def attr_quoted)

lemma attrs_test_plain:
  \<open>xmlAttrs (''testResult identifier="'' @ escapeXml tid @ ''" /'')
    = [(''identifier'', escapeXml tid)]\<close>
  by (simp add: xmlAttrs_def isQuote_def attr_quoted)

lemma attrs_test_stamped:
  \<open>xmlAttrs (''testResult identifier="'' @ escapeXml tid
               @ ''" datestamp="'' @ escapeXml d @ ''" /'')
    = [(''identifier'', escapeXml tid), (''datestamp'', escapeXml d)]\<close>
  by (simp add: xmlAttrs_def isQuote_def attr_quoted)

lemma unescapeXml_escapeXml: "unescapeXml (escapeXml v) = v"
  by (induction v) (simp_all add: escapeXml_Nil escapeXml_Cons unescapeXml.simps(2))

lemma closing_tag: "oneTag ''</assessmentResult>'' ''/assessmentResult''"
  by (simp add: oneTag_def isQuote_def)

lemma document_skeleton:
  assumes H: "\<forall>l \<in> set H. plainLine l"
    and T: "oneTag T testTag"
    and items: "\<forall>x \<in> set xs. oneTag (f x) (g x)"
  shows "\<exists>bs. xmlTags (concat (map (\<lambda>l. l @ ''\<newline>'') (H @ [T] @ map f xs @ [''</assessmentResult>'']))) 
                = bs @ [testTag] @ map g xs @ [''/assessmentResult''] \<and>
              (\<forall>b \<in> set bs. tagName b \<noteq> ''testResult'' \<and> tagName b \<noteq> ''itemResult'')"
proof -
  from scan_plain_lines [OF H, of "[]"] obtain bs where
    bs: "foldl tagStep ([], Outside) (concat (map (\<lambda>l. l @ ''\<newline>'') H)) = (bs, Outside)"
    and other: "\<forall>b \<in> set bs. tagName b \<noteq> ''testResult'' \<and> tagName b \<noteq> ''itemResult''"
    by auto
  have T': "foldl tagStep (bs, Outside) (T @ ''\<newline>'') = (testTag # bs, Outside)"
    using T by (simp add: oneTag_def)
  have items': "foldl tagStep (testTag # bs, Outside) (concat (map (\<lambda>x. f x @ ''\<newline>'') xs))
                  = (rev (map g xs) @ testTag # bs, Outside)"
    using items by (rule scan_tag_lines)
  have closing: "foldl tagStep (rev (map g xs) @ testTag # bs, Outside) (''</assessmentResult>'' @ ''\<newline>'')
                  = (''/assessmentResult'' # rev (map g xs) @ testTag # bs, Outside)"
    using closing_tag by (simp only: oneTag_def)
  have "foldl tagStep ([], Outside)
          (concat (map (\<lambda>l. l @ ''\<newline>'') (H @ [T] @ map f xs @ [''</assessmentResult>''])))
        = (''/assessmentResult'' # rev (map g xs) @ testTag # bs, Outside)"
    using bs T' items' closing by (simp add: comp_def)
  then have "xmlTags (concat (map (\<lambda>l. l @ ''\<newline>'') (H @ [T] @ map f xs @ [''</assessmentResult>''])))
        = rev bs @ [testTag] @ map g xs @ [''/assessmentResult'']"
    by (simp add: xmlTags_def rev_map)
  moreover have "\<forall>b \<in> set (rev bs). tagName b \<noteq> ''testResult'' \<and> tagName b \<noteq> ''itemResult''"
    using other by simp
  ultimately show ?thesis by blast
qed

lemma lines_shape:
  \<open>\<exists>H. (\<forall>l \<in> set H. plainLine l) \<and>
     assessmentResultLines row tid ds ids =
       H @ [if truthy ds
            then ''  <testResult identifier="'' @ escapeXml tid
                   @ ''" datestamp="'' @ escapeXml (the ds) @ ''" />''
            else ''  <testResult identifier="'' @ escapeXml tid @ ''" />'']
         @ map (\<lambda>(index, itemId).
              if truthy ds
              then ''  <itemResult identifier="'' @ escapeXml itemId
                     @ ''" sequenceIndex="'' @ showNat (index + 1)
                     @ ''" datestamp="'' @ escapeXml (the ds)
                     @ ''" sessionStatus="final" />''
              else ''  <itemResult identifier="'' @ escapeXml itemId
                     @ ''" sequenceIndex="'' @ showNat (index + 1)
                     @ ''" sessionStatus="final" />'')
             (enumerate 0 ids)
         @ [''</assessmentResult>'']\<close>
proof -
  let ?H = \<open>[''<?xml version="1.0" encoding="UTF-8"?>'',
      ''<assessmentResult xmlns="'' @ RESULTS_NAMESPACE @ ''" xmlns:xsi="'' @ XSI_NAMESPACE
        @ ''" xsi:schemaLocation="'' @ SCHEMA_LOCATION @ ''">'',
      ''  <context sourcedId="'' @ escapeXml (candidateNumber row) @ ''">'',
      ''    <sessionIdentifier sourceID="candidateName" identifier="''
        @ escapeXml (candidateName row) @ ''" />'']
     @ (if truthy (candidateId row)
        then [''    <sessionIdentifier sourceID="candidateId" identifier="''
                @ escapeXml (the (candidateId row)) @ ''" />'']
        else [])
     @ (if truthy (candidateAccount row)
        then [''    <sessionIdentifier sourceID="candidateAccount" identifier="''
                @ escapeXml (the (candidateAccount row)) @ ''" />'']
        else [])
     @ [''  </context>'']\<close>
  have "\<forall>l \<in> set ?H. plainLine l"
    using plain_declaration plain_root plain_context plain_session plain_closing
    by (auto simp del: append.simps append_Cons)
  moreover have "assessmentResultLines row tid ds ids = ?H @ [if truthy ds
            then ''  <testResult identifier='' @ [CHR 0x22] @ escapeXml tid
                   @ [CHR 0x22] @ '' datestamp='' @ [CHR 0x22] @ escapeXml (the ds) @ [CHR 0x22] @ '' />''
            else ''  <testResult identifier='' @ [CHR 0x22] @ escapeXml tid @ [CHR 0x22] @ '' />'']
         @ map (\<lambda>(index, itemId).
              if truthy ds
              then ''  <itemResult identifier='' @ [CHR 0x22] @ escapeXml itemId
                     @ [CHR 0x22] @ '' sequenceIndex='' @ [CHR 0x22] @ showNat (index + 1)
                     @ [CHR 0x22] @ '' datestamp='' @ [CHR 0x22] @ escapeXml (the ds)
                     @ [CHR 0x22] @ '' sessionStatus='' @ [CHR 0x22] @ ''final'' @ [CHR 0x22] @ '' />''
              else ''  <itemResult identifier='' @ [CHR 0x22] @ escapeXml itemId
                     @ [CHR 0x22] @ '' sequenceIndex='' @ [CHR 0x22] @ showNat (index + 1)
                     @ [CHR 0x22] @ '' sessionStatus='' @ [CHR 0x22] @ ''final'' @ [CHR 0x22] @ '' />'')
             (enumerate 0 ids)
         @ [''</assessmentResult>'']"
    by (simp add: assessmentResultLines_def)
  ultimately show ?thesis by (intro exI [of _ ?H]) simp
qed

lemma document_tags:
  \<open>\<exists>bs. xmlTags (buildAssessmentResultXml row tid ds ids) =
       bs @ [if truthy ds
             then ''testResult identifier="'' @ escapeXml tid
                    @ ''" datestamp="'' @ escapeXml (the ds) @ ''" /''
             else ''testResult identifier="'' @ escapeXml tid @ ''" /'']
          @ map (\<lambda>(index, itemId).
              if truthy ds
              then ''itemResult identifier="'' @ escapeXml itemId
                     @ ''" sequenceIndex="'' @ showNat (index + 1)
                     @ ''" datestamp="'' @ escapeXml (the ds)
                     @ ''" sessionStatus="final" /''
              else ''itemResult identifier="'' @ escapeXml itemId
                     @ ''" sequenceIndex="'' @ showNat (index + 1)
                     @ ''" sessionStatus="final" /'')
             (enumerate 0 ids)
          @ [''/assessmentResult''] \<and>
     (\<forall>b \<in> set bs. tagName b \<noteq> ''testResult'' \<and> tagName b \<noteq> ''itemResult'')\<close>
proof -
  obtain H where H: "\<forall>l \<in> set H. plainLine l"
    and lines: \<open>assessmentResultLines row tid ds ids =
       H @ [if truthy ds
            then ''  <testResult identifier="'' @ escapeXml tid
                   @ ''" datestamp="'' @ escapeXml (the ds) @ ''" />''
            else ''  <testResult identifier="'' @ escapeXml tid @ ''" />'']
         @ map (\<lambda>(index, itemId).
              if truthy ds
              then ''  <itemResult identifier="'' @ escapeXml itemId
                     @ ''" sequenceIndex="'' @ showNat (index + 1)
                     @ ''" datestamp="'' @ escapeXml (the ds)
                     @ ''" sessionStatus="final" />''
              else ''  <itemResult identifier="'' @ escapeXml itemId
                     @ ''" sequenceIndex="'' @ showNat (index + 1)
                     @ ''" sessionStatus="final" />'')
             (enumerate 0 ids)
         @ [''</assessmentResult>'']\<close>
    using lines_shape by blast
  show ?thesis
    unfolding document_is_its_lines lines
    by (rule document_skeleton [OF H])
       (auto simp del: append.simps append_Cons
             intro: test_line_plain test_line_stamped item_line_plain item_line_stamped)
qed

lemma tag_names [simp]:
  \<open>tagName (''testResult identifier="'' @ a) = ''testResult''\<close>
  \<open>tagName (''itemResult identifier="'' @ a) = ''itemResult''\<close>
  "tagName ''/assessmentResult'' = ''/assessmentResult''"
  by (simp_all add: tagName_def)

lemma resultElements_document:
  \<open>resultElements (buildAssessmentResultXml row tid ds ids) =
     (if truthy ds
      then ''testResult identifier="'' @ escapeXml tid
             @ ''" datestamp="'' @ escapeXml (the ds) @ ''" /''
      else ''testResult identifier="'' @ escapeXml tid @ ''" /'') #
     map (\<lambda>(index, itemId).
            if truthy ds
            then ''itemResult identifier="'' @ escapeXml itemId
                   @ ''" sequenceIndex="'' @ showNat (index + 1)
                   @ ''" datestamp="'' @ escapeXml (the ds)
                   @ ''" sessionStatus="final" /''
            else ''itemResult identifier="'' @ escapeXml itemId
                   @ ''" sequenceIndex="'' @ showNat (index + 1)
                   @ ''" sessionStatus="final" /'')
       (enumerate 0 ids)\<close>
proof -
  obtain bs where tags: \<open>xmlTags (buildAssessmentResultXml row tid ds ids) =
       bs @ [if truthy ds
             then ''testResult identifier="'' @ escapeXml tid
                    @ ''" datestamp="'' @ escapeXml (the ds) @ ''" /''
             else ''testResult identifier="'' @ escapeXml tid @ ''" /'']
          @ map (\<lambda>(index, itemId).
              if truthy ds
              then ''itemResult identifier="'' @ escapeXml itemId
                     @ ''" sequenceIndex="'' @ showNat (index + 1)
                     @ ''" datestamp="'' @ escapeXml (the ds)
                     @ ''" sessionStatus="final" /''
              else ''itemResult identifier="'' @ escapeXml itemId
                     @ ''" sequenceIndex="'' @ showNat (index + 1)
                     @ ''" sessionStatus="final" /'')
             (enumerate 0 ids)
          @ [''/assessmentResult'']\<close>
    and other: "\<forall>b \<in> set bs. tagName b \<noteq> ''testResult'' \<and> tagName b \<noteq> ''itemResult''"
    using document_tags by blast
  from other have "filter (\<lambda>tag. tagName tag = ''testResult'' \<or> tagName tag = ''itemResult'') bs = []"
    by (simp add: filter_empty_conv)
  then show ?thesis
    unfolding resultElements_def tags
    by (simp add: filter_map comp_def case_prod_beta del: append.simps append_Cons)
qed

lemma itemResults_document:
  \<open>itemResults (buildAssessmentResultXml row tid ds ids) =
     map (\<lambda>(index, itemId).
            if truthy ds
            then ''itemResult identifier="'' @ escapeXml itemId
                   @ ''" sequenceIndex="'' @ showNat (index + 1)
                   @ ''" datestamp="'' @ escapeXml (the ds)
                   @ ''" sessionStatus="final" /''
            else ''itemResult identifier="'' @ escapeXml itemId
                   @ ''" sequenceIndex="'' @ showNat (index + 1)
                   @ ''" sessionStatus="final" /'')
       (enumerate 0 ids)\<close>
proof -
  obtain bs where tags: \<open>xmlTags (buildAssessmentResultXml row tid ds ids) =
       bs @ [if truthy ds
             then ''testResult identifier="'' @ escapeXml tid
                    @ ''" datestamp="'' @ escapeXml (the ds) @ ''" /''
             else ''testResult identifier="'' @ escapeXml tid @ ''" /'']
          @ map (\<lambda>(index, itemId).
              if truthy ds
              then ''itemResult identifier="'' @ escapeXml itemId
                     @ ''" sequenceIndex="'' @ showNat (index + 1)
                     @ ''" datestamp="'' @ escapeXml (the ds)
                     @ ''" sessionStatus="final" /''
              else ''itemResult identifier="'' @ escapeXml itemId
                     @ ''" sequenceIndex="'' @ showNat (index + 1)
                     @ ''" sessionStatus="final" /'')
             (enumerate 0 ids)
          @ [''/assessmentResult'']\<close>
    and other: "\<forall>b \<in> set bs. tagName b \<noteq> ''testResult'' \<and> tagName b \<noteq> ''itemResult''"
    using document_tags by blast
  from other have "filter (\<lambda>tag. tagName tag = ''itemResult'') bs = []"
    by (simp add: filter_empty_conv)
  then show ?thesis
    unfolding itemResults_def tags
    by (simp add: filter_map comp_def case_prod_beta del: append.simps append_Cons)
qed

text \<open>
  Claim C5. The text of a rendered document holds as many \<^verbatim>\<open>itemResult\<close> elements as
  there are item identifiers. The element at position \<open>i\<close> (from 0) has the attribute
  \<^verbatim>\<open>identifier\<close> whose value, its entities read back, is the identifier at position \<open>i\<close>,
  and the attribute \<^verbatim>\<open>sequenceIndex\<close> with the decimal digits of \<open>i + 1\<close>. The elements are
  the same in the document of every other row of the run.
\<close>

theorem item_results_follow_item_ids:
  "length (itemResults (buildAssessmentResultXml row tid ds itemIds)) = length itemIds \<and>
   (\<forall>i < length itemIds.
      map_option unescapeXml
        (attribute ''identifier'' (itemResults (buildAssessmentResultXml row tid ds itemIds) ! i))
        = Some (itemIds ! i) \<and>
      attribute ''sequenceIndex'' (itemResults (buildAssessmentResultXml row tid ds itemIds) ! i)
        = Some (showNat (i + 1))) \<and>
   itemResults (buildAssessmentResultXml row tid ds itemIds)
     = itemResults (buildAssessmentResultXml row' tid ds itemIds)"
  by (simp add: itemResults_document nth_enumerate_eq attribute_def
        attrs_item_plain attrs_item_stamped unescapeXml_escapeXml
      del: append.simps append_Cons)

theorem item_results_follow_item_ids_witness:
  \<open>itemResults
      (buildAssessmentResultXml (exampleRows ! 0) ''WEB-EXAM-2026'' None [''item-001'', ''item-002''])
    = [''itemResult identifier="item-001" sequenceIndex="1" sessionStatus="final" /'',
       ''itemResult identifier="item-002" sequenceIndex="2" sessionStatus="final" /''] \<and>
   map (\<lambda>tag. (map_option unescapeXml (attribute ''identifier'' tag), attribute ''sequenceIndex'' tag))
     (itemResults
        (buildAssessmentResultXml (exampleRows ! 0) ''WEB-EXAM-2026'' None [''item-001'', ''item-002'']))
    = [(Some ''item-001'', Some ''1''), (Some ''item-002'', Some ''2'')] \<and>
   itemResults
      (buildAssessmentResultXml (exampleRows ! 0) ''WEB-EXAM-2026'' None [''item-001'', ''item-002''])
    = itemResults
        (buildAssessmentResultXml (exampleRows ! 1) ''WEB-EXAM-2026'' None [''item-001'', ''item-002''])\<close>
proof -
  have tags: \<open>itemResults
      (buildAssessmentResultXml (exampleRows ! 0) ''WEB-EXAM-2026'' None [''item-001'', ''item-002''])
    = [''itemResult identifier="item-001" sequenceIndex="1" sessionStatus="final" /'',
       ''itemResult identifier="item-002" sequenceIndex="2" sessionStatus="final" /'']\<close>
    by code_simp
  have attrs: \<open>map (\<lambda>tag. (map_option unescapeXml (attribute ''identifier'' tag), attribute ''sequenceIndex'' tag))
     [''itemResult identifier="item-001" sequenceIndex="1" sessionStatus="final" /'',
       ''itemResult identifier="item-002" sequenceIndex="2" sessionStatus="final" /'']
    = [(Some ''item-001'', Some ''1''), (Some ''item-002'', Some ''2'')]\<close>
    by code_simp
  note inst = item_results_follow_item_ids
         [of "exampleRows ! 0" "''WEB-EXAM-2026''" None "[''item-001'', ''item-002'']"
             "exampleRows ! 1"]
  note same = inst [THEN conjunct2, THEN conjunct2]
  from same show ?thesis
    unfolding tags attrs by simp
qed

text \<open>
  Claim C6, as stated, fails for a supplied datestamp that is the empty string. The run
  with \<^verbatim>\<open>--test-result-datestamp ""\<close> stores the empty string as the datestamp argument
  and writes the document of candidate 1001 with a \<^verbatim>\<open>testResult\<close> and two \<^verbatim>\<open>itemResult\<close>
  elements, none of which has an attribute \<^verbatim>\<open>datestamp\<close>.
\<close>

theorem empty_datestamp_leaves_no_attribute:
  "(case parseArgs [''--roster'', ''roster.csv'', ''--assessment-test'', ''test.xml'',
                    ''--output'', ''out'', ''--test-result-datestamp'', ''''] of
      Inl e \<Rightarrow> None
    | Inr args \<Rightarrow> testResultDatestamp args) = Some [] \<and>
   map_option (\<lambda>doc. map (attribute ''datestamp'') (resultElements doc))
     (files (snd (main plainHost
                    [''--roster'', ''roster.csv'', ''--assessment-test'', ''test.xml'',
                     ''--output'', ''out'', ''--test-result-datestamp'', '''']
                    exampleWorld))
        ''out/assessmentResult-2001.xml'')
   = Some [None, None, None]"
  by code_simp

text \<open>
  Claim C6, amended. The text of a rendered document holds one \<^verbatim>\<open>testResult\<close> element and
  then one \<^verbatim>\<open>itemResult\<close> element for each item identifier. With a datestamp \<open>d\<close> that is
  not empty, each of these elements has the attribute \<^verbatim>\<open>datestamp\<close> whose value, its
  entities read back, is \<open>d\<close>; without a datestamp none of them has an attribute
  \<^verbatim>\<open>datestamp\<close>.
\<close>

theorem datestamp_on_result_elements:
  "map tagName (resultElements (buildAssessmentResultXml row tid ds itemIds))
     = ''testResult'' # replicate (length itemIds) ''itemResult'' \<and>
   (d \<noteq> [] \<longrightarrow>
      map (\<lambda>tag. map_option unescapeXml (attribute ''datestamp'' tag))
        (resultElements (buildAssessmentResultXml row tid (Some d) itemIds))
      = replicate (Suc (length itemIds)) (Some d)) \<and>
   map (attribute ''datestamp'')
     (resultElements (buildAssessmentResultXml row tid None itemIds))
     = replicate (Suc (length itemIds)) None"
proof (intro conjI impI)
  show "map tagName (resultElements (buildAssessmentResultXml row tid ds itemIds))
     = ''testResult'' # replicate (length itemIds) ''itemResult''"
    by (simp add: resultElements_document comp_def case_prod_beta map_replicate_const
          del: append.simps append_Cons)
next
  assume "d \<noteq> []"
  then show "map (\<lambda>tag. map_option unescapeXml (attribute ''datestamp'' tag))
        (resultElements (buildAssessmentResultXml row tid (Some d) itemIds))
      = replicate (Suc (length itemIds)) (Some d)"
    by (simp add: resultElements_document comp_def case_prod_beta map_replicate_const
          attribute_def attrs_test_stamped attrs_item_stamped unescapeXml_escapeXml
          del: append.simps append_Cons)
next
  show "map (attribute ''datestamp'')
     (resultElements (buildAssessmentResultXml row tid None itemIds))
     = replicate (Suc (length itemIds)) None"
    by (simp add: resultElements_document comp_def case_prod_beta map_replicate_const
          attribute_def attrs_test_plain attrs_item_plain
          del: append.simps append_Cons)
qed

theorem datestamp_on_result_elements_witness:
  \<open>resultElements
      (buildAssessmentResultXml (exampleRows ! 0) ''WEB-EXAM-2026''
         (Some ''2026-01-27T10:00:00+09:00'') [''item-001'', ''item-002''])
    = [''testResult identifier="WEB-EXAM-2026" datestamp="2026-01-27T10:00:00+09:00" /'',
       ''itemResult identifier="item-001" sequenceIndex="1" datestamp="2026-01-27T10:00:00+09:00" sessionStatus="final" /'',
       ''itemResult identifier="item-002" sequenceIndex="2" datestamp="2026-01-27T10:00:00+09:00" sessionStatus="final" /''] \<and>
   map (\<lambda>tag. map_option unescapeXml (attribute ''datestamp'' tag))
     (resultElements
        (buildAssessmentResultXml (exampleRows ! 0) ''WEB-EXAM-2026''
           (Some ''2026-01-27T10:00:00+09:00'') [''item-001'', ''item-002'']))
    = [Some ''2026-01-27T10:00:00+09:00'', Some ''2026-01-27T10:00:00+09:00'',
       Some ''2026-01-27T10:00:00+09:00''] \<and>
   map (attribute ''datestamp'')
     (resultElements
        (buildAssessmentResultXml (exampleRows ! 0) ''WEB-EXAM-2026'' None
           [''item-001'', ''item-002'']))
    = [None, None, None]\<close>
proof -
  have nonempty: "''2026-01-27T10:00:00+09:00'' \<noteq> []" by simp
  have tags: \<open>resultElements
      (buildAssessmentResultXml (exampleRows ! 0) ''WEB-EXAM-2026''
         (Some ''2026-01-27T10:00:00+09:00'') [''item-001'', ''item-002''])
    = [''testResult identifier="WEB-EXAM-2026" datestamp="2026-01-27T10:00:00+09:00" /'',
       ''itemResult identifier="item-001" sequenceIndex="1" datestamp="2026-01-27T10:00:00+09:00" sessionStatus="final" /'',
       ''itemResult identifier="item-002" sequenceIndex="2" datestamp="2026-01-27T10:00:00+09:00" sessionStatus="final" /'']\<close>
    by code_simp
  note inst = datestamp_on_result_elements
         [of "exampleRows ! 0" "''WEB-EXAM-2026''" None "[''item-001'', ''item-002'']"
             "''2026-01-27T10:00:00+09:00''"]
  note supplied = inst [THEN conjunct2, THEN conjunct1, THEN mp, OF nonempty]
  note omitted = inst [THEN conjunct2, THEN conjunct2]
  have three: "replicate (Suc (length [''item-001'', ''item-002''])) x = [x, x, x]" for x :: "string option"
    by (simp add: numeral_2_eq_2)
  from tags supplied omitted show ?thesis
    unfolding three by (intro conjI)
qed

end
